theory Spec2Isabelle
  imports Main
begin

section \<open>JavaScript values\<close>

text \<open>
  A JavaScript string is a sequence of UTF-16 code units; \<open>split('')\<close>,
  \<open>charCodeAt\<close>, \<open>trim\<close> and the regular expressions of the front end all work on
  code units, so a string is a list of them. \<open>js\<close> turns an ASCII literal into one.
\<close>

type_synonym jsstring = "nat list"

definition js :: "string \<Rightarrow> jsstring" where
  "js s = map of_char s"

text \<open>
  The values a prop or a property read can hold. \<open>JNum\<close> holds the whole numbers
  and \<open>JNaN\<close> is \<open>NaN\<close>. \<open>JFunction\<close> and \<open>JObject\<close>
  stand for the built-in function or object of that name (the members of
  \<open>Object.prototype\<close> and \<open>Object.prototype\<close> itself).
\<close>

datatype jsval =
    JUndefined
  | JNull
  | JBool bool
  | JNum int
  | JNaN
  | JStr jsstring
  | JFunction jsstring
  | JObject jsstring

fun truthy :: "jsval \<Rightarrow> bool" where
  "truthy JUndefined = False"
| "truthy JNull = False"
| "truthy (JBool b) = b"
| "truthy (JNum n) = (n \<noteq> 0)"
| "truthy JNaN = False"
| "truthy (JStr s) = (s \<noteq> [])"
| "truthy (JFunction f) = True"
| "truthy (JObject ob) = True"

text \<open>\<open>a || b\<close>\<close>

definition js_or :: "jsval \<Rightarrow> jsval \<Rightarrow> jsval" where
  "js_or a b = (if truthy a then a else b)"

text \<open>A prop that holds an object, \<open>null\<close>, or nothing at all.\<close>

datatype 'a jsref = RefUndefined | RefNull | Ref 'a

text \<open>
  An object whose own properties are strings (an object literal of strings, or a JSON
  object of text fields), in insertion order. A property read that finds no own
  property goes on to \<open>Object.prototype\<close>.
\<close>

type_synonym text_object = "(jsstring \<times> jsstring) list"

definition Object_prototype :: "jsstring \<Rightarrow> jsval" where
  "Object_prototype key =
     (if key \<in> set (map js [''constructor'', ''hasOwnProperty'', ''isPrototypeOf'',
            ''propertyIsEnumerable'', ''toLocaleString'', ''toString'', ''valueOf'',
            ''__defineGetter__'', ''__defineSetter__'', ''__lookupGetter__'',
            ''__lookupSetter__''])
      then JFunction key
      else if key = js ''__proto__'' then JObject (js ''Object.prototype'')
      else JUndefined)"

definition get_property :: "text_object \<Rightarrow> jsstring \<Rightarrow> jsval" where
  "get_property obj key =
     (case map_of obj key of Some v \<Rightarrow> JStr v | None \<Rightarrow> Object_prototype key)"

datatype js_error = TypeError

section \<open>Rendered output\<close>

text \<open>
  What a component returns: an element with its tag, its \<open>className\<close>, the attributes
  that carry data and its children; literal JSX text; the value of an embedded
  expression \<open>{e}\<close>; or a \<open>ReactMarkdown\<close> element with its source text.
\<close>

datatype vnode =
    Element string string "(string \<times> jsval) list" "vnode list"
  | Text jsstring
  | Expr jsval
  | ReactMarkdown jsval

text \<open>All elements of a tree with a given \<open>className\<close>, in document order.\<close>

fun by_class :: "string \<Rightarrow> vnode \<Rightarrow> vnode list" where
  "by_class c (Element tag cl attrs kids) =
     (if cl = c then [Element tag cl attrs kids] else []) @ concat (map (by_class c) kids)"
| "by_class c (Text s) = []"
| "by_class c (Expr v) = []"
| "by_class c (ReactMarkdown v) = []"

text \<open>All elements of a tree with a given tag, in document order.\<close>

fun by_tag :: "string \<Rightarrow> vnode \<Rightarrow> vnode list" where
  "by_tag g (Element tag cl attrs kids) =
     (if tag = g then [Element tag cl attrs kids] else []) @ concat (map (by_tag g) kids)"
| "by_tag g (Text s) = []"
| "by_tag g (Expr v) = []"
| "by_tag g (ReactMarkdown v) = []"

section \<open>AgentMessage\<close>

definition ROLE_COLORS :: text_object where
  "ROLE_COLORS =
     [(js ''Avocat'', js ''#FFE5E5''),
      (js ''Scientifique'', js ''#E5F3FF''),
      (js ''Philosophe'', js ''#F0E5FF''),
      (js ''Critique'', js ''#FFF5E5''),
      (js ''Juge'', js ''#E5FFE5'')]"

definition FALLBACK_COLORS :: "jsstring list" where
  "FALLBACK_COLORS =
     map js [''#FFE5E5'', ''#E5F3FF'', ''#F0E5FF'', ''#FFF5E5'', ''#E5FFE5'', ''#FFE5F5'',
             ''#E5FFFF'']"

text \<open>
  \<open>getAgentColor(roleName)\<close>. A \<open>roleName\<close> that is not a string finds no
  property (its key is \<open>undefined\<close>, \<open>null\<close>, \<open>true\<close>, a number, ...) and has no
  \<open>split\<close> method, so the call throws.
\<close>

definition getAgentColor :: "jsval \<Rightarrow> js_error + jsval" where
  "getAgentColor roleName =
     (case roleName of
        JStr name \<Rightarrow>
          if truthy (get_property ROLE_COLORS name) then Inr (get_property ROLE_COLORS name)
          else
            let hash = foldl (\<lambda>acc char. acc + char) 0 name
            in Inr (JStr (FALLBACK_COLORS ! (hash mod length FALLBACK_COLORS)))
      | _ \<Rightarrow> Inl TypeError)"

definition AgentMessage :: "jsval \<Rightarrow> jsval \<Rightarrow> jsval \<Rightarrow> jsval \<Rightarrow> js_error + vnode" where
  "AgentMessage roleName modelName messageText roundNumber =
     (case getAgentColor roleName of
        Inl e \<Rightarrow> Inl e
      | Inr backgroundColor \<Rightarrow>
          Inr (Element ''div'' ''agent-message-wrapper'' []
            [Element ''div'' ''agent-message-bubble'' [(''style.backgroundColor'', backgroundColor)]
              [Element ''div'' ''agent-header'' []
                 [Element ''span'' ''agent-role'' [] [Expr roleName],
                  if truthy roundNumber
                  then Element ''span'' ''agent-round'' [] [Text (js ''Tour ''), Expr roundNumber]
                  else Expr roundNumber],
               Element ''div'' ''agent-model'' [] [Expr modelName],
               Element ''div'' ''agent-content markdown-content'' [] [ReactMarkdown messageText]]]))"

section \<open>Stage3\<close>

text \<open>
  A value as a component can receive it in a prop: an object with its own properties, in
  insertion order, or any of the other values.
\<close>

datatype jsvalue = Value jsval | Object "(jsstring \<times> jsval) list"

text \<open>\<open>!v\<close> is false for every object.\<close>

fun is_truthy :: "jsvalue \<Rightarrow> bool" where
  "is_truthy (Value v) = truthy v"
| "is_truthy (Object props) = True"

text \<open>
  The read \<open>v.key\<close>. On \<open>null\<close> and \<open>undefined\<close> it throws. An object gives its own
  property, or else what \<open>Object.prototype\<close> has under the name. The other values have
  members of their own kind (\<open>length\<close>, \<open>toFixed\<close>, ...), which are left out: none is
  called \<open>role_name\<close>, \<open>model\<close> or \<open>response\<close>, the names that Stage3 reads.
\<close>

fun get_member :: "jsvalue \<Rightarrow> jsstring \<Rightarrow> js_error + jsval" where
  "get_member (Object props) key =
     Inr (case map_of props key of Some v \<Rightarrow> v | None \<Rightarrow> Object_prototype key)"
| "get_member (Value JUndefined) key = Inl TypeError"
| "get_member (Value JNull) key = Inl TypeError"
| "get_member (Value v) key = Inr (Object_prototype key)"


text \<open>The Stage3 component that renders the synthesis as one more agent message.\<close>

definition Stage3_003 :: "jsvalue \<Rightarrow> js_error + vnode option" where
  "Stage3_003 finalResponse =
     (if \<not> is_truthy finalResponse then Inr None
      else
        case get_member finalResponse (js ''role_name'') of
          Inl e \<Rightarrow> Inl e
        | Inr roleName \<Rightarrow>
        case get_member finalResponse (js ''model'') of
          Inl e \<Rightarrow> Inl e
        | Inr modelName \<Rightarrow>
        case get_member finalResponse (js ''response'') of
          Inl e \<Rightarrow> Inl e
        | Inr response \<Rightarrow>
        case AgentMessage (js_or roleName (JStr (js ''Juge''))) modelName response JNull of
          Inl e \<Rightarrow> Inl e
        | Inr agentMessage \<Rightarrow>
            Inr (Some (Element ''div'' ''stage3-wrapper'' []
              [Element ''div'' ''stage3-divider'' []
                 [Element ''span'' [] [] [Text (js ''Synth'' @ [232] @ js ''se Finale'')]],
               agentMessage])))"

section \<open>ChatInterface\<close>

text \<open>
  \<open>String.prototype.trim\<close> removes the white space and line terminator code units
  from both ends: TAB, LF, VT, FF, CR, SP, NBSP, the Unicode space separators, LS, PS and
  the byte order mark.
\<close>

definition is_white_space :: "nat \<Rightarrow> bool" where
  "is_white_space c \<longleftrightarrow>
     c \<in> {9, 10, 11, 12, 13, 32, 160, 5760, 8232, 8233, 8239, 8287, 12288, 65279}
     \<or> (8192 \<le> c \<and> c \<le> 8202)"

definition trim :: "jsstring \<Rightarrow> jsstring" where
  "trim s = rev (dropWhile is_white_space (rev (dropWhile is_white_space s)))"

text \<open>
  The state of the form: the text of the input, the attached files (by name) and the
  value of the file input the ref points to (\<open>None\<close> while the ref is empty).
  \<open>isLoading\<close> is a prop. A handler returns the new state and the calls of
  \<open>onSendMessage\<close> it made, each with its two arguments.
\<close>

record chat_state =
  input :: jsstring
  selectedFiles :: "jsstring list"
  fileInputValue :: "jsstring option"

definition handleSubmit ::
  "bool \<Rightarrow> chat_state \<Rightarrow> chat_state \<times> (jsstring \<times> jsstring list) list" where
  "handleSubmit isLoading st =
     (if truthy (JStr (trim (input st))) \<and> \<not> isLoading
      then (st\<lparr>input := [], selectedFiles := [],
                fileInputValue := map_option (\<lambda>_. []) (fileInputValue st)\<rparr>,
            [(input st, selectedFiles st)])
      else (st, []))"

definition handleKeyDown ::
  "jsstring \<Rightarrow> bool \<Rightarrow> bool \<Rightarrow> chat_state \<Rightarrow> chat_state \<times> (jsstring \<times> jsstring list) list" where
  "handleKeyDown key shiftKey isLoading st =
     (if key = js ''Enter'' \<and> \<not> shiftKey then handleSubmit isLoading st else (st, []))"

text \<open>The \<open>disabled\<close> attribute of the send button.\<close>

definition send_button_disabled :: "bool \<Rightarrow> chat_state \<Rightarrow> bool" where
  "send_button_disabled isLoading st \<longleftrightarrow> \<not> truthy (JStr (trim (input st))) \<or> isLoading"

text \<open>
  A debate turn as the back end sends it: the round number and four text fields.
\<close>

record turn =
  round :: int
  role_id :: jsstring
  role_name :: jsstring
  model :: jsstring
  message :: jsstring

text \<open>The agent messages of an assistant message: one \<open>AgentMessage\<close> per turn of \<open>stage1\<close>.\<close>

definition stage1_message :: "turn \<Rightarrow> js_error + vnode" where
  "stage1_message t =
     AgentMessage (JStr (role_name t)) (JStr (model t)) (JStr (message t)) (JNum (round t))"

section \<open>DebateRounds\<close>

text \<open>
  The object \<open>rounds\<close> maps a round number to the array of its turns. Its keys are the
  decimal strings of the round numbers, which are written here as the numbers themselves;
  the entries are kept in insertion order.
\<close>

type_synonym rounds_object = "(int \<times> turn list) list"

text \<open>One step of the \<open>forEach\<close>: create the array if the key is new, then push.\<close>

definition push_turn :: "rounds_object \<Rightarrow> turn \<Rightarrow> rounds_object" where
  "push_turn rounds t =
     (let rounds' = (if map_of rounds (round t) = None then rounds @ [(round t, [])] else rounds)
      in map (\<lambda>(k, ts). if k = round t then (k, ts @ [t]) else (k, ts)) rounds')"

definition group_by_round :: "turn list \<Rightarrow> rounds_object" where
  "group_by_round debateHistory = foldl push_turn [] debateHistory"

text \<open>
  \<open>Object.keys\<close> lists the keys that are array indices (\<open>0 .. 2^32 - 2\<close>) in ascending
  order, then the other keys in insertion order.
\<close>

definition Object_keys :: "rounds_object \<Rightarrow> int list" where
  "Object_keys rounds =
     sort (filter (\<lambda>k. 0 \<le> k \<and> k < 2 ^ 32 - 1) (map fst rounds))
     @ filter (\<lambda>k. \<not> (0 \<le> k \<and> k < 2 ^ 32 - 1)) (map fst rounds)"

text \<open>\<open>Object.keys(rounds).map(Number).sort((a, b) => a - b)\<close>\<close>

definition roundNumbers :: "rounds_object \<Rightarrow> int list" where
  "roundNumbers rounds = sort (Object_keys rounds)"

text \<open>\<open>rounds[activeRound] || []\<close>\<close>

definition currentRoundTurns :: "rounds_object \<Rightarrow> int \<Rightarrow> turn list" where
  "currentRoundTurns rounds activeRound =
     (case map_of rounds activeRound of Some ts \<Rightarrow> ts | None \<Rightarrow> [])"

definition round_tab :: "int \<Rightarrow> int \<Rightarrow> vnode" where
  "round_tab activeRound roundNum =
     Element ''button'' (if activeRound = roundNum then ''round-tab active'' else ''round-tab '')
       [(''onClick.setActiveRound'', JNum roundNum)]
       [Text (js ''Tour ''), Expr (JNum roundNum)]"

definition debate_turn :: "turn \<Rightarrow> vnode" where
  "debate_turn t =
     Element ''div'' ''debate-turn'' []
       [Element ''div'' ''turn-header'' []
          [Element ''span'' ''role-name'' [] [Expr (JStr (role_name t))],
           Element ''span'' ''model-name'' []
             [Text (js ''(''), Expr (JStr (model t)), Text (js '')'')]],
        Element ''div'' ''turn-message markdown-content'' [] [ReactMarkdown (JStr (message t))]]"

text \<open>
  The component, as a function of its prop and of its state \<open>activeRound\<close> (initially 1,
  set to a tab's round number by a click on the tab).
\<close>

definition DebateRounds :: "turn list jsref \<Rightarrow> int \<Rightarrow> vnode option" where
  "DebateRounds debateHistory activeRound =
     (case debateHistory of
        Ref history \<Rightarrow>
          if length history = 0 then None
          else
            let rounds = group_by_round history
            in Some (Element ''div'' ''stage debate-rounds'' []
                 [Element ''h3'' ''stage-title'' [] [Text (js ''D'' @ [233] @ js ''bat Multi-Tours'')],
                  Element ''p'' ''stage-description'' []
                    [Text (js ''Les 4 r'' @ [244] @ js ''les d'' @ [233]
                       @ js ''battent en tours s'' @ [233] @ js ''quentiels, chacun r'' @ [233]
                       @ js ''pondant aux arguments des autres.'')],
                  Element ''div'' ''round-tabs'' []
                    (map (round_tab activeRound) (roundNumbers rounds)),
                  Element ''div'' ''round-content'' []
                    (Element ''h4'' ''round-header'' []
                       [Text (js ''Tour ''), Expr (JNum activeRound)]
                     # map debate_turn (currentRoundTurns rounds activeRound))])
      | _ \<Rightarrow> None)"

text \<open>
  A click on an element runs its \<open>onClick\<close> handler: on a tab, \<open>activeRound\<close> becomes
  the round number of the tab; elsewhere nothing changes.
\<close>

fun click :: "vnode \<Rightarrow> int \<Rightarrow> int" where
  "click (Element tag cl attrs kids) activeRound =
     (case map_of attrs ''onClick.setActiveRound'' of
        Some (JNum roundNum) \<Rightarrow> roundNum
      | _ \<Rightarrow> activeRound)"
| "click (Text s) activeRound = activeRound"
| "click (Expr v) activeRound = activeRound"
| "click (ReactMarkdown v) activeRound = activeRound"

definition initial_activeRound :: int where
  "initial_activeRound = 1"


section \<open>Regular expressions\<close>

text \<open>
  The regular expressions of SynthesisDashboard, with the backtracking semantics of the
  language: alternatives are tried from left to right, \<open>*\<close> and \<open>?\<close> take as much as
  they can first, \<open>*?\<close> as little as it can, and the first way of matching that succeeds
  is the match. A character class item is a pattern character, \<open>\s\<close>, \<open>\S\<close> or \<open>\d\<close>.
\<close>

datatype item = Chr nat | WhiteSpace | NonWhiteSpace | Digit

datatype regex =
    Item item
  | Class "item list"
  | Dot
  | Empty
  | Seq regex regex
  | Alt regex regex
  | Opt regex
  | Star regex
  | Lazy regex
  | Group nat regex
  | Lookahead regex
  | StartOfInput
  | EndOfInput

text \<open>\<open>r+\<close> is \<open>r\<close> followed by \<open>r*\<close>.\<close>

definition Plus :: "regex \<Rightarrow> regex" where
  "Plus r = Seq r (Star r)"

text \<open>A sequence of pattern characters, and a sequence of expressions.\<close>

definition lit :: "string \<Rightarrow> regex" where
  "lit s = foldr (\<lambda>c r. Seq (Item (Chr (of_char c))) r) s Empty"

definition seq :: "regex list \<Rightarrow> regex" where
  "seq rs = foldr Seq rs Empty"

text \<open>
  Under the \<open>i\<close> flag two code units match if their canonical (upper case) forms are
  equal. The canonical form is written out for the code units below 256, which is where
  all characters of the patterns are; \<open>\<mu>\<close> and \<open>\<ydieresis>\<close>, whose upper case forms are
  above 255, and the code units from 256 on are left as they are, and none of them has
  the canonical form of a character of the patterns.
\<close>

definition canonicalize :: "nat \<Rightarrow> nat" where
  "canonicalize c =
     (if (97 \<le> c \<and> c \<le> 122) \<or> (224 \<le> c \<and> c \<le> 254 \<and> c \<noteq> 247) then c - 32 else c)"

fun item_matches :: "bool \<Rightarrow> item \<Rightarrow> nat \<Rightarrow> bool" where
  "item_matches ignoreCase (Chr p) c =
     (if ignoreCase then canonicalize c = canonicalize p else c = p)"
| "item_matches ignoreCase WhiteSpace c = is_white_space c"
| "item_matches ignoreCase NonWhiteSpace c = (\<not> is_white_space c)"
| "item_matches ignoreCase Digit c = (48 \<le> c \<and> c \<le> 57)"

definition is_line_terminator :: "nat \<Rightarrow> bool" where
  "is_line_terminator c \<longleftrightarrow> c \<in> {10, 13, 8232, 8233}"

text \<open>
  The state of a match: the index reached, the input that is left from there, and the
  text captured by each group that has taken part.
\<close>

record match_state =
  endIndex :: nat
  remaining :: jsstring
  captures :: "(nat \<times> jsstring) list"

text \<open>
  Matching is done by a machine with a stack of what is still to be matched after the
  expression at hand. Besides expressions the stack holds two kinds of marks: the end of
  a group, where the text matched since the start of the group is captured, and the end
  of an iteration of \<open>*\<close>, \<open>*?\<close> or \<open>?\<close>, where the iteration is rejected if it has
  consumed nothing (less input must remain than the given length).
\<close>

datatype frame =
    Match regex
  | EndGroup nat nat jsstring
  | Progress nat

text \<open>
  The measure by which the machine terminates: the input that remains, then the size of
  the stack up to the first iteration mark that the input has not yet passed.
\<close>

fun weight :: "frame list \<Rightarrow> nat \<Rightarrow> nat" where
  "weight [] l = 0"
| "weight (Match r # k) l = 2 * size r + 1 + weight k l"
| "weight (EndGroup g start text # k) l = 1 + weight k l"
| "weight (Progress n # k) l = (if l < n then 1 + weight k l else 0)"

text \<open>
  \<open>run ignoreCase k x\<close> matches the stack \<open>k\<close> from the state \<open>x\<close>. Alternatives are
  tried in the order of preference, and the first that lets the whole stack succeed
  gives the result.
\<close>

function run :: "bool \<Rightarrow> frame list \<Rightarrow> match_state \<Rightarrow> match_state option" where
  "run ic [] x = Some x"
| "run ic (Progress n # k) x = (if length (remaining x) < n then run ic k x else None)"
| "run ic (EndGroup g start text # k) x =
     run ic k (x\<lparr>captures := (g, take (endIndex x - start) text)
                                # filter (\<lambda>(j, v). j \<noteq> g) (captures x)\<rparr>)"
| "run ic (Match (Item it) # k) x =
     (case remaining x of
        [] \<Rightarrow> None
      | ch # rest \<Rightarrow>
          if item_matches ic it ch
          then run ic k (x\<lparr>endIndex := endIndex x + 1, remaining := rest\<rparr>) else None)"
| "run ic (Match (Class its) # k) x =
     (case remaining x of
        [] \<Rightarrow> None
      | ch # rest \<Rightarrow>
          if list_ex (\<lambda>it. item_matches ic it ch) its
          then run ic k (x\<lparr>endIndex := endIndex x + 1, remaining := rest\<rparr>) else None)"
| "run ic (Match Dot # k) x =
     (case remaining x of
        [] \<Rightarrow> None
      | ch # rest \<Rightarrow>
          if \<not> is_line_terminator ch
          then run ic k (x\<lparr>endIndex := endIndex x + 1, remaining := rest\<rparr>) else None)"
| "run ic (Match Empty # k) x = run ic k x"
| "run ic (Match (Seq r1 r2) # k) x = run ic (Match r1 # Match r2 # k) x"
| "run ic (Match (Alt r1 r2) # k) x =
     (case run ic (Match r1 # k) x of Some z \<Rightarrow> Some z | None \<Rightarrow> run ic (Match r2 # k) x)"
| "run ic (Match (Opt r) # k) x =
     (case run ic (Match r # Progress (length (remaining x)) # k) x of
        Some z \<Rightarrow> Some z
      | None \<Rightarrow> run ic k x)"
| "run ic (Match (Star r) # k) x =
     (case run ic (Match r # Progress (length (remaining x)) # Match (Star r) # k) x of
        Some z \<Rightarrow> Some z
      | None \<Rightarrow> run ic k x)"
| "run ic (Match (Lazy r) # k) x =
     (case run ic k x of
        Some z \<Rightarrow> Some z
      | None \<Rightarrow> run ic (Match r # Progress (length (remaining x)) # Match (Lazy r) # k) x)"
| "run ic (Match (Group g r) # k) x =
     run ic (Match r # EndGroup g (endIndex x) (remaining x) # k) x"
| "run ic (Match (Lookahead r) # k) x =
     (case run ic [Match r] x of
        None \<Rightarrow> None
      | Some y \<Rightarrow> run ic k (x\<lparr>captures := captures y\<rparr>))"
| "run ic (Match StartOfInput # k) x = (if endIndex x = 0 then run ic k x else None)"
| "run ic (Match EndOfInput # k) x = (if remaining x = [] then run ic k x else None)"
  by pat_completeness auto
termination
  by (relation "inv_image (less_than <*lex*> less_than)
        (\<lambda>(ic, k, x). (length (remaining x), weight k (length (remaining x))))") auto

definition matcher :: "bool \<Rightarrow> regex \<Rightarrow> match_state \<Rightarrow> match_state option" where
  "matcher ic r x = run ic [Match r] x"

text \<open>
  The result of \<open>exec\<close>: where the match starts and the state where it ends. The match
  is looked for at the start index, then at each later one up to the end of the input.
\<close>

fun search :: "bool \<Rightarrow> regex \<Rightarrow> nat \<Rightarrow> jsstring \<Rightarrow> (nat \<times> match_state) option" where
  "search ic r i [] =
     (case matcher ic r \<lparr>endIndex = i, remaining = [], captures = []\<rparr> of
        Some y \<Rightarrow> Some (i, y)
      | None \<Rightarrow> None)"
| "search ic r i (ch # rest) =
     (case matcher ic r \<lparr>endIndex = i, remaining = ch # rest, captures = []\<rparr> of
        Some y \<Rightarrow> Some (i, y)
      | None \<Rightarrow> search ic r (i + 1) rest)"

text \<open>\<open>match[n]\<close> of a match: the text of group \<open>n\<close>, \<open>undefined\<close> if it took no part.\<close>

definition capture :: "nat \<Rightarrow> match_state \<Rightarrow> jsval" where
  "capture n y = (case map_of (captures y) n of Some s \<Rightarrow> JStr s | None \<Rightarrow> JUndefined)"

text \<open>\<open>split('\n')\<close>, or on any other single code unit.\<close>

fun split :: "nat \<Rightarrow> jsstring \<Rightarrow> jsstring list" where
  "split sep [] = [[]]"
| "split sep (ch # rest) =
     (if ch = sep then [] # split sep rest
      else (case split sep rest of
              first # others \<Rightarrow> (ch # first) # others
            | [] \<Rightarrow> [[ch]]))"

section \<open>SynthesisDashboard\<close>

text \<open>
  \<open>extractSection\<close> builds its two patterns by putting the section name into a template
  string. Every section name is a list of alternatives \<open>a1|...|an\<close>, and in the
  pattern that results the bars split the whole pattern: its alternatives are the
  prefix with \<open>a1\<close>, then \<open>a2\<close>, ..., and last \<open>an\<close> with the suffix.
\<close>

fun last_alternatives :: "regex list \<Rightarrow> regex \<Rightarrow> regex" where
  "last_alternatives [] suffix = suffix"
| "last_alternatives [a] suffix = Seq a suffix"
| "last_alternatives (a # b # rest) suffix = Alt a (last_alternatives (b # rest) suffix)"

fun interpolate :: "regex \<Rightarrow> regex list \<Rightarrow> regex \<Rightarrow> regex" where
  "interpolate prefix [] suffix = Seq prefix suffix"
| "interpolate prefix [a] suffix = Seq prefix (Seq a suffix)"
| "interpolate prefix (a # b # rest) suffix =
     Alt (Seq prefix a) (last_alternatives (b # rest) suffix)"

text \<open>\<open>[\s\S]\<close> and \<open>[:\s]\<close>\<close>

definition any_unit :: regex where
  "any_unit = Class [WhiteSpace, NonWhiteSpace]"

definition colon_or_space :: regex where
  "colon_or_space = Class [Chr 58, WhiteSpace]"

text \<open>
  The two patterns of a section name, both with the \<open>i\<close> flag:
  \<^verbatim>\<open>##\s*NAME[:\s]*\n([\s\S]*?)(?=##|$)\<close> and
  \<^verbatim>\<open>\*\*NAME[:\s]*\*\*([\s\S]*?)(?=\*\*|##|$)\<close>.
\<close>

definition patterns :: "regex list \<Rightarrow> regex list" where
  "patterns sectionName =
     [interpolate (seq [lit ''##'', Star (Item WhiteSpace)]) sectionName
        (seq [Star colon_or_space, Item (Chr 10), Group 1 (Lazy any_unit),
              Lookahead (Alt (lit ''##'') EndOfInput)]),
      interpolate (lit ''**'') sectionName
        (seq [Star colon_or_space, lit ''**'', Group 1 (Lazy any_unit),
              Lookahead (Alt (lit ''**'') (Alt (lit ''##'') EndOfInput))])]"

text \<open>
  The loop over the patterns: the first pattern that matches with a non-empty group 1
  gives the section, trimmed; \<open>None\<close> is \<open>null\<close>.
\<close>

fun first_section :: "jsstring \<Rightarrow> regex list \<Rightarrow> jsstring option" where
  "first_section text [] = None"
| "first_section text (pattern # rest) =
     (case search True pattern 0 text of
        None \<Rightarrow> first_section text rest
      | Some (i, y) \<Rightarrow>
          (case capture 1 y of
             JStr s \<Rightarrow> if s \<noteq> [] then Some (trim s) else first_section text rest
           | _ \<Rightarrow> first_section text rest))"

definition extractSection :: "jsstring \<Rightarrow> regex list \<Rightarrow> jsstring option" where
  "extractSection text sectionName = first_section text (patterns sectionName)"

text \<open>
  The score pattern, with the flags \<open>gi\<close>:
  \<^verbatim>\<open>(?:Feasibility|Risk|Financial|Regulatory|Strategic).*?[:)]?\s*(\d+(?:\.\d+)?)\s*[/\/]?\s*(\d+)\<close>
\<close>

definition scorePattern :: regex where
  "scorePattern =
     seq [Alt (lit ''Feasibility'') (Alt (lit ''Risk'') (Alt (lit ''Financial'')
            (Alt (lit ''Regulatory'') (lit ''Strategic'')))),
          Lazy Dot,
          Opt (Class [Chr 58, Chr 41]),
          Star (Item WhiteSpace),
          Group 1 (Seq (Plus (Item Digit)) (Opt (Seq (Item (Chr 46)) (Plus (Item Digit))))),
          Star (Item WhiteSpace),
          Opt (Class [Chr 47, Chr 47]),
          Star (Item WhiteSpace),
          Group 2 (Plus (Item Digit))]"

text \<open>
  A score as it is extracted: the criterion and the digits of the two groups. The numbers
  that \<open>parseFloat\<close> makes of the digits, the percentage and the colour of the bar are
  floating-point values and are not part of the model.
\<close>

record score_item =
  criterion :: jsstring
  score_digits :: jsval
  maxScore_digits :: jsval

text \<open>
  The \<open>while\<close> loop of \<open>extractScores\<close>: \<open>exec\<close> looks for the next match from
  \<open>lastIndex\<close> on, and the next search starts where the match ends. \<open>rest\<close> is the text
  from \<open>lastIndex\<close> on. A match that does not move \<open>lastIndex\<close> forward would be found
  again and again; the loop would not end, and the result is \<open>None\<close>.
\<close>

function exec_loop :: "nat \<Rightarrow> jsstring \<Rightarrow> score_item list option" where
  "exec_loop lastIndex rest =
     (case search True scorePattern lastIndex rest of
        None \<Rightarrow> Some []
      | Some (i, y) \<Rightarrow>
          if length (remaining y) < length rest
          then
            map_option
              (\<lambda>scores.
                 \<lparr>criterion =
                    trim (takeWhile (\<lambda>ch. ch \<noteq> 58 \<and> ch \<noteq> 41)
                            (take (endIndex y - i) (drop (i - lastIndex) rest))),
                  score_digits = capture 1 y,
                  maxScore_digits = capture 2 y\<rparr> # scores)
              (exec_loop (endIndex y) (remaining y))
          else None)"
  by pat_completeness auto
termination
  by (relation "measure (\<lambda>(lastIndex, rest). length rest)") auto

text \<open>\<open>scores.length > 0 ? scores : null\<close>, once the loop has ended.\<close>

definition extractScores :: "jsstring \<Rightarrow> score_item list option option" where
  "extractScores text =
     map_option (\<lambda>scores. if length scores > 0 then Some scores else None) (exec_loop 0 text)"

text \<open>The bullet pattern \<^verbatim>\<open>^[-*\<bullet>]\s+\<close> (no flags).\<close>

definition bullet :: regex where
  "bullet = seq [StartOfInput, Class [Chr 45, Chr 42, Chr 8226], Plus (Item WhiteSpace)]"

text \<open>\<open>s.replace(r, '')\<close> for a pattern without the \<open>g\<close> flag: the first match is cut out.\<close>

definition replace_first :: "regex \<Rightarrow> jsstring \<Rightarrow> jsstring" where
  "replace_first r s =
     (case search False r 0 s of None \<Rightarrow> s | Some (i, y) \<Rightarrow> take i s @ remaining y)"

definition extractBulletPoints :: "jsstring option \<Rightarrow> jsstring list" where
  "extractBulletPoints sectionText =
     (case sectionText of
        None \<Rightarrow> []
      | Some s \<Rightarrow>
          if s = [] then []
          else
            map (\<lambda>line. replace_first bullet (trim line))
              (filter (\<lambda>line. search False bullet 0 (trim line) \<noteq> None) (split 10 s)))"

definition consensus_name :: "regex list" where
  "consensus_name =
     [lit ''Consensus'', seq [lit ''Point'', Opt (Item (Chr 115)), lit '' of Consensus'']]"

definition divergence_name :: "regex list" where
  "divergence_name =
     [lit ''Divergence'',
      seq [lit ''Disagreement'', Opt (Item (Chr 115))],
      seq [lit ''Point'', Opt (Item (Chr 115)), lit '' of Divergence'']]"

definition risks_name :: "regex list" where
  "risks_name = [seq [lit ''Critical Risk'', Opt (Item (Chr 115))], lit ''Risques Critiques'']"

definition scenarios_name :: "regex list" where
  "scenarios_name =
     [seq [lit ''Alternative Scenario'', Opt (Item (Chr 115))],
      seq [lit ''Sc'', Item (Chr 233), lit ''narios Alternatifs'']]"

text \<open>The items of a list with their indices, as \<open>map((item, idx) => ...)\<close> sees them.\<close>

definition indexed :: "'a list \<Rightarrow> (int \<times> 'a) list" where
  "indexed xs = zip (map int [0..<length xs]) xs"

definition score_bar :: "score_item \<Rightarrow> vnode" where
  "score_bar item =
     Element ''div'' ''score-item''
       [(''score'', score_digits item), (''maxScore'', maxScore_digits item)]
       [Element ''div'' ''score-label'' []
          [Element ''span'' '''' [] [Expr (JStr (criterion item))]]]"

text \<open>The dashboard that is rendered once there is something to show.\<close>

definition dashboard ::
  "jsstring list \<Rightarrow> jsstring list \<Rightarrow> jsstring list \<Rightarrow> jsstring list
     \<Rightarrow> score_item list option \<Rightarrow> vnode" where
  "dashboard consensusPoints divergencePoints riskPoints scenarioPoints scores =
     Element ''div'' ''synthesis-dashboard'' []
       [Element ''div'' ''dashboard-header'' []
          [Element ''h3'' '''' [] [Text ([55357, 56522] @ js '' Decision Analysis Dashboard'')]],
        Element ''div'' ''dashboard-grid'' []
          [if length consensusPoints > 0 \<or> length divergencePoints > 0
           then Element ''div'' ''dashboard-section consensus-divergence'' []
                  [Element ''div'' ''section-header'' [] [Text (js ''Consensus & Divergence'')],
                   Element ''div'' ''two-column'' []
                     [if length consensusPoints > 0
                      then Element ''div'' ''consensus-box'' []
                             [Element ''h4'' '''' [] [Text ([10003] @ js '' Points of Consensus'')],
                              Element ''ul'' '''' []
                                (map (\<lambda>point. Element ''li'' '''' [] [Expr (JStr point)])
                                   (take 3 consensusPoints))]
                      else Expr (JBool False),
                      if length divergencePoints > 0
                      then Element ''div'' ''divergence-box'' []
                             [Element ''h4'' '''' [] [Text ([9889] @ js '' Points of Divergence'')],
                              Element ''ul'' '''' []
                                (map (\<lambda>point. Element ''li'' '''' [] [Expr (JStr point)])
                                   (take 3 divergencePoints))]
                      else Expr (JBool False)]]
           else Expr (JBool False),
           if length riskPoints > 0
           then Element ''div'' ''dashboard-section risks'' []
                  [Element ''div'' ''section-header'' [] [Text ([9888, 65039] @ js '' Critical Risks'')],
                   Element ''ul'' ''risk-list'' []
                     (map (\<lambda>(idx, risk).
                             Element ''li'' ''risk-item'' []
                               [Element ''span'' ''risk-badge'' []
                                  [Text (js ''R''), Expr (JNum (idx + 1))],
                                Expr (JStr risk)])
                        (indexed (take 4 riskPoints)))]
           else Expr (JBool False),
           if length scenarioPoints > 0
           then Element ''div'' ''dashboard-section scenarios'' []
                  [Element ''div'' ''section-header'' []
                     [Text ([55357, 56580] @ js '' Alternative Scenarios'')],
                   Element ''div'' ''scenario-cards'' []
                     (map (\<lambda>(idx, scenario).
                             Element ''div'' ''scenario-card'' []
                               [Element ''div'' ''scenario-number'' []
                                  [Text (js ''Scenario ''), Expr (JNum (idx + 1))],
                                Element ''div'' ''scenario-text'' [] [Expr (JStr scenario)]])
                        (indexed (take 3 scenarioPoints)))]
           else Expr (JBool False),
           case scores of
             None \<Rightarrow> Expr JNull
           | Some items \<Rightarrow>
               if length items > 0
               then Element ''div'' ''dashboard-section scores'' []
                      [Element ''div'' ''section-header'' []
                         [Text ([55357, 56520] @ js '' Multi-Criteria Evaluation'')],
                       Element ''div'' ''score-bars'' [] (map score_bar items)]
               else Expr (JBool False)]]"

text \<open>
  The component. The outer \<open>None\<close> stands for a call that does not return; \<open>Inr None\<close>
  is the \<open>null\<close> the component returns when it has nothing to show.
\<close>

definition SynthesisDashboard :: "text_object jsref \<Rightarrow> (js_error + vnode option) option" where
  "SynthesisDashboard synthesis =
     (case synthesis of
        Ref syn \<Rightarrow>
          (case get_property syn (js ''message'') of
             JStr text \<Rightarrow>
               if text = [] then Some (Inr None)
               else
                 let consensus = extractSection text consensus_name;
                     divergence = extractSection text divergence_name;
                     risks = extractSection text risks_name;
                     scenarios = extractSection text scenarios_name
                 in (case extractScores text of
                       None \<Rightarrow> None
                     | Some scores \<Rightarrow>
                         let consensusPoints = extractBulletPoints consensus;
                             divergencePoints = extractBulletPoints divergence;
                             riskPoints = extractBulletPoints risks;
                             scenarioPoints = extractBulletPoints scenarios;
                             hasData = (length consensusPoints > 0 \<or> length divergencePoints > 0
                                        \<or> length riskPoints > 0 \<or> length scenarioPoints > 0
                                        \<or> scores \<noteq> None)
                         in if \<not> hasData then Some (Inr None)
                            else Some (Inr (Some (dashboard consensusPoints divergencePoints
                                                   riskPoints scenarioPoints scores))))
           | v \<Rightarrow> if truthy v then Some (Inl TypeError) else Some (Inr None))
      | _ \<Rightarrow> Some (Inr None))"

section \<open>The debate orchestration\<close>

text \<open>
  The back end (\<open>council.py\<close>, \<open>roles.py\<close>) is not among the sources; only its
  documentation is, with the signatures of \<open>run_multi_round_debate\<close>,
  \<open>_build_debate_context\<close> and \<open>_juge_synthesize_debate\<close> and the two prompts. The
  definitions of this section follow the specification of the orchestration engine.
\<close>

text \<open>
  Modelled from the spec: the Role entity (section 3) of the missing \<open>roles.py\<close>. The
  two fields that share their names with fields of a turn are primed.
\<close>

record Role =
  role_id' :: jsstring
  role_name' :: jsstring
  model_id :: jsstring
  debate_instructions :: jsstring
  synthesis_instructions :: jsstring
  participates_in_debate :: bool
  is_synthesizer :: bool

text \<open>
  Modelled from the spec: the Turn entity (section 3) of the missing \<open>council.py\<close>: the
  turn of the payload, whose \<open>model\<close> is the model identifier of the role, together
  with its \<open>sequence_index\<close>, the global position in the session.
\<close>

record Turn = turn +
  sequence_index :: nat

text \<open>
  Modelled from the spec: the Synthesis entity (section 3) of the missing \<open>council.py\<close>.
\<close>

record Synthesis =
  synthesis_role_id :: jsstring
  synthesis_role_name :: jsstring
  synthesis_model_id :: jsstring
  response :: jsstring

text \<open>
  Modelled from the spec: an entry \<open>{speaker, text}\<close> of a context, and the Model
  Invocation Service \<open>invoke(model_id, orderedContext)\<close> (section 6), which returns the
  generated text or fails (\<open>None\<close>).
\<close>

type_synonym context_entry = "jsstring \<times> jsstring"

type_synonym invocation_service = "jsstring \<Rightarrow> context_entry list \<Rightarrow> jsstring option"

text \<open>Modelled from the spec: the error taxonomy (section 7) of the missing \<open>council.py\<close>;
  an invocation error names the role and the round of the turn that failed.\<close>

datatype core_error =
    ConfigurationError
  | InvocationError jsstring nat
  | SynthesisInvocationError jsstring

text \<open>Modelled from the spec: the decimal digits of a round number, for the prompts of the
  missing \<open>council.py\<close>.\<close>

fun decimal :: "nat \<Rightarrow> jsstring" where
  "decimal n = (if n < 10 then [48 + n] else decimal (n div 10) @ [48 + n mod 10])"

text \<open>
  Modelled from the spec: the system entry of a debate turn (section 4.2, item 1) of the
  missing \<open>_build_debate_context\<close>: the role's debate instructions, the round metadata
  and the standing directive, in the words of the repository's documentation.
\<close>

definition system_entry :: "Role \<Rightarrow> nat \<Rightarrow> nat \<Rightarrow> context_entry" where
  "system_entry role roundIndex totalRounds =
     (js ''system'',
      debate_instructions role
      @ js ''\<newline>\<newline>DEBATE CONTEXT:\<newline>You are participating in Round ''
      @ decimal roundIndex @ js '' of '' @ decimal totalRounds
      @ js '' in a structured debate council.\<newline>Your goal is to:\<newline>''
      @ js ''- Build on previous arguments (yours and others'' @ [39] @ js '')\<newline>''
      @ js ''- Respond to counter-arguments from other roles\<newline>''
      @ js ''- Introduce new points and perspectives relevant to your role\<newline>''
      @ js ''- Avoid repetition - reference previous points briefly rather than restating them\<newline>''
      @ js ''- Keep your response focused and concise (2-3 paragraphs)\<newline>\<newline>''
      @ js ''Remember: Each role brings a different perspective. ''
      @ js ''Engage with their arguments constructively.'')"

text \<open>
  Modelled from the spec: the prior turns of a call of the missing
  \<open>_build_debate_context\<close> (section 4.2, item 3): of the transcript, in its order, every
  turn of a round strictly before \<open>roundIndex\<close>, and every turn of round \<open>roundIndex\<close>
  produced before this role's slot, that is, before the role's own turn of that round.
  From the role's own turn of the round on, which would be a look ahead, only turns of
  earlier rounds are taken; turns of later rounds are never taken.
\<close>

fun prior_turns :: "Role \<Rightarrow> nat \<Rightarrow> Turn list \<Rightarrow> Turn list" where
  "prior_turns role roundIndex [] = []"
| "prior_turns role roundIndex (t # rest) =
     (if round t = int roundIndex \<and> role_id t = role_id' role
      then filter (\<lambda>u. round u < int roundIndex) rest
      else if round t \<le> int roundIndex then t # prior_turns role roundIndex rest
      else prior_turns role roundIndex rest)"

text \<open>Modelled from the spec: the entry of a prior turn in the context of the missing
  \<open>_build_debate_context\<close>, tagged with the role name of the turn (section 4.2, item 3).\<close>

definition turn_entry :: "Turn \<Rightarrow> context_entry" where
  "turn_entry t = (role_name t, message t)"

text \<open>
  Modelled from the spec: the Context Builder \<open>buildContext\<close> (section 4.2), the missing
  \<open>_build_debate_context\<close>: the system entry, the user question word for word, and
  the prior turns.
\<close>

definition buildContext ::
  "jsstring \<Rightarrow> Role \<Rightarrow> Turn list \<Rightarrow> nat \<Rightarrow> nat \<Rightarrow> context_entry list" where
  "buildContext userQuery role transcript roundIndex totalRounds =
     system_entry role roundIndex totalRounds
     # (js ''user'', userQuery)
     # map turn_entry (prior_turns role roundIndex transcript)"

text \<open>
  Modelled from the spec: the Turn Executor \<open>executeTurn\<close> (section 4.3) of the missing
  \<open>council.py\<close>: one attempt; the text that comes back is wrapped into a Turn with the
  given round and sequence index, a failure is the invocation error of the role and round.
\<close>

definition executeTurn ::
  "invocation_service \<Rightarrow> Role \<Rightarrow> context_entry list \<Rightarrow> nat \<Rightarrow> nat \<Rightarrow> core_error + Turn" where
  "executeTurn invoke role context roundIndex sequenceIndex =
     (case invoke (model_id role) context of
        None \<Rightarrow> Inl (InvocationError (role_id' role) roundIndex)
      | Some text \<Rightarrow>
          Inr \<lparr>round = int roundIndex, role_id = role_id' role, role_name = role_name' role,
               model = model_id role, message = text, sequence_index = sequenceIndex\<rparr>)"

text \<open>
  Modelled from the spec: the state of the missing orchestrator while the rounds run
  (section 4.4): the transcript so far and the sequence index of the next turn.
\<close>

record debate_state =
  transcript_so_far :: "Turn list"
  next_sequence_index :: nat

text \<open>
  Modelled from the spec: one round of the missing \<open>run_multi_round_debate\<close> (section
  4.4): for each role in the registry's debate order, build the context, execute the
  turn, append the Turn to the transcript and advance the sequence index. The first
  failure ends the round, with the state reached so far.
\<close>

fun run_round ::
  "invocation_service \<Rightarrow> jsstring \<Rightarrow> nat \<Rightarrow> nat \<Rightarrow> Role list \<Rightarrow> debate_state
     \<Rightarrow> (core_error \<times> debate_state) + debate_state" where
  "run_round invoke userQuery totalRounds r [] st = Inr st"
| "run_round invoke userQuery totalRounds r (role # rest) st =
     (case executeTurn invoke role
             (buildContext userQuery role (transcript_so_far st) r totalRounds)
             r (next_sequence_index st) of
        Inl e \<Rightarrow> Inl (e, st)
      | Inr t \<Rightarrow>
          run_round invoke userQuery totalRounds r rest
            \<lparr>transcript_so_far = transcript_so_far st @ [t],
             next_sequence_index = next_sequence_index st + 1\<rparr>)"

text \<open>
  Modelled from the spec: the rounds of the missing \<open>run_multi_round_debate\<close> (section
  4.4), from round \<open>r\<close> on with \<open>n\<close> rounds left; a round is started only after the one
  before it is complete.
\<close>

fun run_rounds ::
  "invocation_service \<Rightarrow> jsstring \<Rightarrow> nat \<Rightarrow> Role list \<Rightarrow> nat \<Rightarrow> nat \<Rightarrow> debate_state
     \<Rightarrow> (core_error \<times> debate_state) + debate_state" where
  "run_rounds invoke userQuery totalRounds debateRoles r 0 st = Inr st"
| "run_rounds invoke userQuery totalRounds debateRoles r (Suc n) st =
     (case run_round invoke userQuery totalRounds r debateRoles st of
        Inl failure \<Rightarrow> Inl failure
      | Inr st' \<Rightarrow> run_rounds invoke userQuery totalRounds debateRoles (r + 1) n st')"

text \<open>
  Modelled from the spec: the transcript as the missing \<open>_juge_synthesize_debate\<close> gives
  it to the synthesizer (section 4.5), with a heading for each round and each turn
  labelled with its role, in the words of the repository's documentation.
\<close>

definition format_turn :: "Turn \<Rightarrow> jsstring" where
  "format_turn t =
     js ''**'' @ role_name t @ js ''** ('' @ role_id t @ js ''):\<newline>'' @ message t
     @ js ''\<newline>\<newline>''"

definition format_round :: "Turn list \<Rightarrow> nat \<Rightarrow> jsstring" where
  "format_round transcript r =
     js ''=== Round '' @ decimal r @ js '' ===\<newline>''
     @ concat (map format_turn (filter (\<lambda>t. round t = int r) transcript))"

definition format_transcript :: "Turn list \<Rightarrow> nat \<Rightarrow> jsstring" where
  "format_transcript transcript totalRounds =
     concat (map (format_round transcript) [1..<totalRounds + 1])"

text \<open>
  Modelled from the spec: the Synthesis Stage \<open>synthesize\<close> (section 4.5), the missing
  \<open>_juge_synthesize_debate\<close>: one context, one invocation.
\<close>

definition synthesize ::
  "invocation_service \<Rightarrow> jsstring \<Rightarrow> Turn list \<Rightarrow> nat \<Rightarrow> Role \<Rightarrow> core_error + Synthesis" where
  "synthesize invoke userQuery transcript totalRounds synthesizerRole =
     (case invoke (model_id synthesizerRole)
             [(js ''system'',
               synthesis_instructions synthesizerRole
               @ js ''\<newline>\<newline>Reconcile the perspectives of the debate, surface the points of ''
               @ js ''consensus and of divergence, and give an actionable recommendation.''),
              (js ''user'',
               js ''Original Question: '' @ userQuery
               @ js ''\<newline>\<newline>COMPLETE DEBATE TRANSCRIPT:\<newline>\<newline>''
               @ format_transcript transcript totalRounds
               @ js ''Your task: Synthesize this debate into a clear, actionable answer to ''
               @ js ''the user'' @ [39] @ js ''s question.'')] of
        None \<Rightarrow> Inl (SynthesisInvocationError (role_id' synthesizerRole))
      | Some text \<Rightarrow>
          Inr \<lparr>synthesis_role_id = role_id' synthesizerRole,
               synthesis_role_name = role_name' synthesizerRole,
               synthesis_model_id = model_id synthesizerRole,
               response = text\<rparr>)"

text \<open>Modelled from the spec: the status of a session (section 3) of the missing
  \<open>council.py\<close>.\<close>

datatype session_status = Running | Completed | Failed

text \<open>
  Modelled from the spec: the DebateSession (section 3) that the missing
  \<open>run_multi_round_debate\<close> hands over: the transcript, the synthesis once it is
  produced, the counts, the status, and the error of a failed session.
\<close>

record DebateSession =
  transcript :: "Turn list"
  synthesis_produced :: "Synthesis option"
  total_rounds :: nat
  total_turns :: nat
  status :: session_status
  failure :: "core_error option"

text \<open>
  Modelled from the spec: the Debate Orchestrator (section 4.4), the missing
  \<open>run_multi_round_debate\<close>, on a registry snapshot: all rounds, then the synthesis.
  A failure in a round gives a failed session with the partial transcript; a failure of
  the synthesis gives a failed session with the complete transcript.
\<close>

definition run_multi_round_debate ::
  "invocation_service \<Rightarrow> Role list \<Rightarrow> Role \<Rightarrow> jsstring \<Rightarrow> nat \<Rightarrow> DebateSession" where
  "run_multi_round_debate invoke debateRoles synthesizerRole userQuery totalRounds =
     (case run_rounds invoke userQuery totalRounds debateRoles 1 totalRounds
             \<lparr>transcript_so_far = [], next_sequence_index = 0\<rparr> of
        Inl (e, st) \<Rightarrow>
          \<lparr>transcript = transcript_so_far st, synthesis_produced = None, total_rounds = totalRounds,
           total_turns = length (transcript_so_far st), status = Failed, failure = Some e\<rparr>
      | Inr st \<Rightarrow>
          (case synthesize invoke userQuery (transcript_so_far st) totalRounds synthesizerRole of
             Inl e \<Rightarrow>
               \<lparr>transcript = transcript_so_far st, synthesis_produced = None,
                total_rounds = totalRounds, total_turns = length (transcript_so_far st),
                status = Failed, failure = Some e\<rparr>
           | Inr s \<Rightarrow>
               \<lparr>transcript = transcript_so_far st, synthesis_produced = Some s,
                total_rounds = totalRounds, total_turns = length (transcript_so_far st),
                status = Completed, failure = None\<rparr>))"

text \<open>Modelled from the spec: the default number of rounds (section 6) of the missing
  \<open>run_multi_round_debate\<close>.\<close>

definition default_total_rounds :: nat where
  "default_total_rounds = 3"
section \<open>Properties of the presentation components\<close>

subsection \<open>Property reads\<close>

lemma Object_prototype_data_fields [simp]:
  "Object_prototype (js ''role_name'') = JUndefined"
  "Object_prototype (js ''model'') = JUndefined"
  "Object_prototype (js ''response'') = JUndefined"
  "Object_prototype (js ''message'') = JUndefined"
  by (simp_all add: Object_prototype_def js_def)

lemma get_property_string_or_undefined:
  "Object_prototype key = JUndefined \<Longrightarrow>
     get_property obj key = JUndefined \<or> (\<exists>s. get_property obj key = JStr s)"
  by (simp add: get_property_def split: option.splits)

subsection \<open>getAgentColor\<close>

lemma getAgentColor_string: "\<exists>c. getAgentColor (JStr name) = Inr c"
  by (simp add: getAgentColor_def Let_def)

text \<open>
  A name that \<open>Object.prototype\<close> does not define gets a colour of the palette: the
  named one, or the fallback at the sum of its code units modulo 7.
\<close>

lemma getAgentColor_palette:
  assumes "Object_prototype name = JUndefined"
  shows "\<exists>c \<in> snd ` set ROLE_COLORS \<union> set FALLBACK_COLORS.
           getAgentColor (JStr name) = Inr (JStr c)"
proof (cases "map_of ROLE_COLORS name")
  case None
  have "foldl (\<lambda>acc char. acc + char) 0 name mod length FALLBACK_COLORS
          < length FALLBACK_COLORS"
    by (simp add: FALLBACK_COLORS_def)
  then have "FALLBACK_COLORS ! (foldl (\<lambda>acc char. acc + char) 0 name mod length FALLBACK_COLORS)
      \<in> set FALLBACK_COLORS"
    by (rule nth_mem)
  then show ?thesis
    using None assms by (simp add: getAgentColor_def get_property_def Let_def)
next
  case (Some c)
  then have "c \<in> snd ` set ROLE_COLORS"
    by (metis map_of_SomeD snd_conv imageI)
  moreover have "c \<noteq> []"
    using Some by (auto simp: ROLE_COLORS_def js_def split: if_splits)
  ultimately show ?thesis
    using Some by (auto simp: getAgentColor_def get_property_def)
qed

text \<open>
  Claim C8: for every role-name string, \<open>getAgentColor\<close> returns an element of the
  fixed pastel palette. For the role name \<open>constructor\<close> the read
  \<open>ROLE_COLORS[roleName]\<close> finds the function that every object inherits, which is
  truthy, and \<open>getAgentColor\<close> returns that function: not a colour of the palette.
\<close>

theorem getAgentColor_inherited_property:
  "getAgentColor (JStr (js ''constructor'')) = Inr (JFunction (js ''constructor''))
   \<and> JFunction (js ''constructor'') \<notin> JStr ` (snd ` set ROLE_COLORS \<union> set FALLBACK_COLORS)"
  by (auto simp: getAgentColor_def get_property_def ROLE_COLORS_def Object_prototype_def js_def)

subsection \<open>AgentMessage and Stage3\<close>

lemma AgentMessage_badge:
  "AgentMessage roleName modelName messageText roundNumber = Inr v \<Longrightarrow>
     by_class ''agent-round'' v =
       (if truthy roundNumber
        then [Element ''span'' ''agent-round'' [] [Text (js ''Tour ''), Expr roundNumber]]
        else [])"
  by (auto simp: AgentMessage_def split: sum.splits)

lemma AgentMessage_string:
  "\<exists>c. AgentMessage (JStr name) modelName messageText roundNumber =
     Inr (Element ''div'' ''agent-message-wrapper'' []
            [Element ''div'' ''agent-message-bubble'' [(''style.backgroundColor'', c)]
              [Element ''div'' ''agent-header'' []
                 [Element ''span'' ''agent-role'' [] [Expr (JStr name)],
                  if truthy roundNumber
                  then Element ''span'' ''agent-round'' [] [Text (js ''Tour ''), Expr roundNumber]
                  else Expr roundNumber],
               Element ''div'' ''agent-model'' [] [Expr modelName],
               Element ''div'' ''agent-content markdown-content'' []
                 [ReactMarkdown messageText]]])"
proof -
  obtain c where "getAgentColor (JStr name) = Inr c"
    using getAgentColor_string by blast
  then show ?thesis by (simp add: AgentMessage_def)
qed


lemma get_member_object:
  "Object_prototype key = JUndefined \<Longrightarrow>
     get_member (Object props) key =
       Inr (case map_of props key of Some v \<Rightarrow> v | None \<Rightarrow> JUndefined)"
  by (simp split: option.splits)

text \<open>The second version of Stage3 on an object whose role name to show is a string.\<close>

lemma Stage3_003_object:
  assumes "js_or (case map_of props (js ''role_name'') of Some x \<Rightarrow> x | None \<Rightarrow> JUndefined)
             (JStr (js ''Juge'')) = JStr name"
  shows "\<exists>c. Stage3_003 (Object props) =
     Inr (Some (Element ''div'' ''stage3-wrapper'' []
       [Element ''div'' ''stage3-divider'' []
          [Element ''span'' [] [] [Text (js ''Synth'' @ [232] @ js ''se Finale'')]],
        Element ''div'' ''agent-message-wrapper'' []
          [Element ''div'' ''agent-message-bubble'' [(''style.backgroundColor'', c)]
            [Element ''div'' ''agent-header'' []
               [Element ''span'' ''agent-role'' [] [Expr (JStr name)], Expr JNull],
             Element ''div'' ''agent-model'' []
               [Expr (case map_of props (js ''model'') of Some x \<Rightarrow> x | None \<Rightarrow> JUndefined)],
             Element ''div'' ''agent-content markdown-content'' []
               [ReactMarkdown
                  (case map_of props (js ''response'') of
                     Some x \<Rightarrow> x | None \<Rightarrow> JUndefined)]]]]))"
proof -
  obtain c where "AgentMessage (JStr name)
        (case map_of props (js ''model'') of Some x \<Rightarrow> x | None \<Rightarrow> JUndefined)
        (case map_of props (js ''response'') of Some x \<Rightarrow> x | None \<Rightarrow> JUndefined) JNull =
      Inr (Element ''div'' ''agent-message-wrapper'' []
            [Element ''div'' ''agent-message-bubble'' [(''style.backgroundColor'', c)]
              [Element ''div'' ''agent-header'' []
                 [Element ''span'' ''agent-role'' [] [Expr (JStr name)],
                  if truthy JNull
                  then Element ''span'' ''agent-round'' [] [Text (js ''Tour ''), Expr JNull]
                  else Expr JNull],
               Element ''div'' ''agent-model'' []
                 [Expr (case map_of props (js ''model'') of Some x \<Rightarrow> x | None \<Rightarrow> JUndefined)],
               Element ''div'' ''agent-content markdown-content'' []
                 [ReactMarkdown
                    (case map_of props (js ''response'') of
                       Some x \<Rightarrow> x | None \<Rightarrow> JUndefined)]]])"
    using AgentMessage_string by blast
  then show ?thesis
    by (simp add: Stage3_003_def get_member_object assms del: get_member.simps)
qed

text \<open>
  On an object whose \<open>role_name\<close> is a number the second version throws: the number is
  handed to \<open>getAgentColor\<close>, which has no colour under it and cannot split it.
\<close>

lemma Stage3_003_throws_on_number:
  "Stage3_003 (Object [(js ''role_name'', JNum 5)]) = Inl TypeError"
  by (simp add: Stage3_003_def AgentMessage_def getAgentColor_def js_or_def)

lemma role_name_of_text_fields:
  "\<exists>name. js_or (case map_of (map (\<lambda>(k, s). (k, JStr s)) fr) (js ''role_name'') of
                    Some x \<Rightarrow> x | None \<Rightarrow> JUndefined) (JStr (js ''Juge'')) = JStr name"
  by (cases "map_of fr (js ''role_name'')") (simp_all add: map_of_map js_or_def)

text \<open>
  Claim C9: \<open>AgentMessage\<close> renders its round badge exactly when \<open>roundNumber\<close> is
  truthy. Whenever it renders, the elements of class \<open>agent-round\<close> are the one badge
  \<open>Tour {roundNumber}\<close> if \<open>roundNumber\<close> is truthy and none otherwise; the message of a
  debate turn with round at least 1 renders with the badge of its round; whatever Stage3
  renders has no badge, and for a record of text props it does render; and a message
  with round 0 has no badge.
\<close>

theorem AgentMessage_round_badge:
  "(AgentMessage roleName modelName messageText roundNumber = Inr v \<longrightarrow>
      by_class ''agent-round'' v =
        (if truthy roundNumber
         then [Element ''span'' ''agent-round'' [] [Text (js ''Tour ''), Expr roundNumber]]
         else []))
   \<and> (1 \<le> round t \<longrightarrow>
        (\<exists>w. stage1_message t = Inr w \<and>
           by_class ''agent-round'' w =
             [Element ''span'' ''agent-round'' [] [Text (js ''Tour ''), Expr (JNum (round t))]]))
   \<and> (Stage3_003 finalResponse = Inr (Some u) \<longrightarrow> by_class ''agent-round'' u = [])
   \<and> (\<exists>w. Stage3_003 (Object (map (\<lambda>(k, s). (k, JStr s)) fr)) = Inr (Some w)
          \<and> by_class ''agent-round'' w = [])
   \<and> (\<exists>w. AgentMessage (JStr name) modelName messageText (JNum 0) = Inr w
          \<and> by_class ''agent-round'' w = [])"
proof (intro conjI impI)
  assume "AgentMessage roleName modelName messageText roundNumber = Inr v"
  then show "by_class ''agent-round'' v =
        (if truthy roundNumber
         then [Element ''span'' ''agent-round'' [] [Text (js ''Tour ''), Expr roundNumber]]
         else [])"
    by (rule AgentMessage_badge)
next
  assume "1 \<le> round t"
  moreover obtain c where "getAgentColor (JStr (role_name t)) = Inr c"
    using getAgentColor_string by blast
  ultimately show "\<exists>w. stage1_message t = Inr w \<and>
           by_class ''agent-round'' w =
             [Element ''span'' ''agent-round'' [] [Text (js ''Tour ''), Expr (JNum (round t))]]"
    by (simp add: stage1_message_def AgentMessage_def)
next
  assume "Stage3_003 finalResponse = Inr (Some u)"
  then show "by_class ''agent-round'' u = []"
    by (auto simp: Stage3_003_def dest!: AgentMessage_badge split: if_splits sum.splits)
next
  obtain n where "js_or (case map_of (map (\<lambda>(k, s). (k, JStr s)) fr) (js ''role_name'') of
                    Some x \<Rightarrow> x | None \<Rightarrow> JUndefined) (JStr (js ''Juge'')) = JStr n"
    using role_name_of_text_fields by blast
  from Stage3_003_object [OF this]
  show "\<exists>w. Stage3_003 (Object (map (\<lambda>(k, s). (k, JStr s)) fr)) = Inr (Some w)
          \<and> by_class ''agent-round'' w = []"
    by auto
next
  obtain c where "getAgentColor (JStr name) = Inr c"
    using getAgentColor_string by blast
  then show "\<exists>w. AgentMessage (JStr name) modelName messageText (JNum 0) = Inr w
          \<and> by_class ''agent-round'' w = []"
    by (simp add: AgentMessage_def)
qed

theorem AgentMessage_round_badge_witness:
  "(\<exists>v. AgentMessage (JStr (js ''Critique'')) (JStr (js ''llama3.2:3b'')) (JStr (js ''Non.''))
           (JNum 2) = Inr v
        \<and> by_class ''agent-round'' v =
            [Element ''span'' ''agent-round'' [] [Text (js ''Tour ''), Expr (JNum 2)]])
   \<and> 1 \<le> round \<lparr>round = 1, role_id = js ''cfo'', role_name = js ''CFO'',
                   model = js ''gemma2:9b'', message = js ''Oui.''\<rparr>
   \<and> (\<exists>w. stage1_message \<lparr>round = 1, role_id = js ''cfo'', role_name = js ''CFO'',
                model = js ''gemma2:9b'', message = js ''Oui.''\<rparr> = Inr w
        \<and> by_class ''agent-round'' w =
            [Element ''span'' ''agent-round'' [] [Text (js ''Tour ''), Expr (JNum 1)]])
   \<and> (\<exists>u. Stage3_003 (Object [(js ''role_name'', JStr (js ''Juge'')),
                                (js ''response'', JStr (js ''Oui.''))]) = Inr (Some u)
        \<and> by_class ''agent-round'' u = [])"
proof -
  obtain v where v: "AgentMessage (JStr (js ''Critique'')) (JStr (js ''llama3.2:3b''))
      (JStr (js ''Non.'')) (JNum 2) = Inr v"
    using getAgentColor_string[of "js ''Critique''"] by (auto simp: AgentMessage_def)
  have "js_or (case map_of [(js ''role_name'', JStr (js ''Juge'')),
                            (js ''response'', JStr (js ''Oui.''))] (js ''role_name'') of
                 Some x \<Rightarrow> x | None \<Rightarrow> JUndefined) (JStr (js ''Juge'')) = JStr (js ''Juge'')"
    by (simp add: js_or_def js_def)
  from Stage3_003_object [OF this]
  obtain u where u: "Stage3_003 (Object [(js ''role_name'', JStr (js ''Juge'')),
                                (js ''response'', JStr (js ''Oui.''))]) = Inr (Some u)"
    by blast
  show ?thesis
    using v u AgentMessage_round_badge
      [of "JStr (js ''Critique'')" "JStr (js ''llama3.2:3b'')" "JStr (js ''Non.'')" "JNum 2" v
          "\<lparr>round = 1, role_id = js ''cfo'', role_name = js ''CFO'', model = js ''gemma2:9b'',
            message = js ''Oui.''\<rparr>"
          "Object [(js ''role_name'', JStr (js ''Juge'')), (js ''response'', JStr (js ''Oui.''))]" u]
    by simp
qed




subsection \<open>ChatInterface\<close>

lemma all_white_space_dropWhile:
  "(\<forall>c \<in> set (dropWhile is_white_space s). is_white_space c)
     \<longleftrightarrow> (\<forall>c \<in> set s. is_white_space c)"
  by (induction s) auto

lemma trim_empty_iff: "trim s = [] \<longleftrightarrow> (\<forall>c \<in> set s. is_white_space c)"
  by (simp add: trim_def all_white_space_dropWhile)

text \<open>
  Claim C7: a form submission calls \<open>onSendMessage\<close> only if the input is non-empty
  after trimming and no request is in flight. Every call made by \<open>handleSubmit\<close>, and
  by \<open>handleKeyDown\<close> through it, passes the input itself, the trimmed input is not
  empty, \<open>isLoading\<close> is false, and the input has a character that is not white space.
  The send button is disabled in exactly the other cases.
\<close>

theorem handleSubmit_sends_only_nonblank:
  "(call \<in> set (snd (handleSubmit isLoading st)) \<longrightarrow>
      call = (input st, selectedFiles st) \<and> trim (input st) \<noteq> [] \<and> \<not> isLoading
      \<and> (\<exists>c \<in> set (input st). \<not> is_white_space c))
   \<and> (call \<in> set (snd (handleKeyDown key shiftKey isLoading st)) \<longrightarrow>
      call = (input st, selectedFiles st) \<and> trim (input st) \<noteq> [] \<and> \<not> isLoading
      \<and> (\<exists>c \<in> set (input st). \<not> is_white_space c))
   \<and> (send_button_disabled isLoading st \<longleftrightarrow> trim (input st) = [] \<or> isLoading)"
  using trim_empty_iff[of "input st"]
  by (auto simp: handleSubmit_def handleKeyDown_def send_button_disabled_def split: if_splits)

theorem handleSubmit_sends_only_nonblank_witness:
  "(js '' oui '', [js ''a.pdf'']) \<in> set (snd (handleSubmit False
       \<lparr>input = js '' oui '', selectedFiles = [js ''a.pdf''],
        fileInputValue = Some (js ''a.pdf'')\<rparr>))
   \<and> trim (js '' oui '') \<noteq> []
   \<and> (js '' oui '', [js ''a.pdf'']) \<in> set (snd (handleKeyDown (js ''Enter'') False False
       \<lparr>input = js '' oui '', selectedFiles = [js ''a.pdf''],
        fileInputValue = Some (js ''a.pdf'')\<rparr>))"
proof -
  have t: "trim (js '' oui '') = js ''oui''"
    by (simp add: trim_def js_def is_white_space_def)
  have a: "(js '' oui '', [js ''a.pdf'']) \<in> set (snd (handleSubmit False
       \<lparr>input = js '' oui '', selectedFiles = [js ''a.pdf''],
        fileInputValue = Some (js ''a.pdf'')\<rparr>))"
    by (simp add: handleSubmit_def t) (simp add: js_def)
  have b: "(js '' oui '', [js ''a.pdf'']) \<in> set (snd (handleKeyDown (js ''Enter'') False False
       \<lparr>input = js '' oui '', selectedFiles = [js ''a.pdf''],
        fileInputValue = Some (js ''a.pdf'')\<rparr>))"
    by (simp add: handleKeyDown_def handleSubmit_def t) (simp add: js_def)
  show ?thesis
    using a b handleSubmit_sends_only_nonblank
      [of "(js '' oui '', [js ''a.pdf''])" False
          "\<lparr>input = js '' oui '', selectedFiles = [js ''a.pdf''],
            fileInputValue = Some (js ''a.pdf'')\<rparr>"
          "js ''Enter''" False]
    by simp
qed

subsection \<open>DebateRounds\<close>

lemma map_of_push_map:
  "map_of (map (\<lambda>(k, ts). if k = r then (k, ts @ [t]) else (k, ts)) rs) k =
     (if k = r then map_option (\<lambda>ts. ts @ [t]) (map_of rs k) else map_of rs k)"
  by (induction rs) auto

lemma fst_push_map:
  "map fst (map (\<lambda>(k, ts). if k = r then (k, ts @ [t]) else (k, ts)) rs) = map fst rs"
  by (induction rs) auto

lemma map_of_push_turn:
  "map_of (push_turn rs t) k =
     (if k = round t
      then Some ((case map_of rs k of Some ts \<Rightarrow> ts | None \<Rightarrow> []) @ [t])
      else map_of rs k)"
  by (auto simp: push_turn_def Let_def map_of_push_map map_add_def split: option.splits)

lemma keys_push_turn:
  "map fst (push_turn rs t) =
     (if map_of rs (round t) = None then map fst rs @ [round t] else map fst rs)"
  unfolding push_turn_def Let_def fst_push_map by simp

lemma group_by_round_snoc: "group_by_round (h @ [t]) = push_turn (group_by_round h) t"
  by (simp add: group_by_round_def)

text \<open>The array stored under a round number holds the turns of that round, in order.\<close>

lemma map_of_group_by_round:
  "map_of (group_by_round h) k =
     (if k \<in> round ` set h then Some (filter (\<lambda>t. round t = k) h) else None)"
proof (induction h arbitrary: k rule: rev_induct)
  case Nil
  show ?case by (simp add: group_by_round_def)
next
  case (snoc t h)
  have "filter (\<lambda>u. round u = round t) h = []" if "round t \<notin> round ` set h"
  proof -
    have "\<forall>u \<in> set h. round u \<noteq> round t"
      using that by (metis imageI)
    then show ?thesis by (simp add: filter_empty_conv)
  qed
  then show ?case
    by (auto simp: group_by_round_snoc map_of_push_turn snoc)
qed

lemma keys_group_by_round:
  "distinct (map fst (group_by_round h)) \<and> set (map fst (group_by_round h)) = round ` set h"
proof (induction h rule: rev_induct)
  case Nil
  show ?case by (simp add: group_by_round_def)
next
  case (snoc t h)
  have "map_of (group_by_round h) (round t) = None \<longleftrightarrow> round t \<notin> round ` set h"
    by (simp add: map_of_group_by_round)
  with snoc show ?case
    by (auto simp: group_by_round_snoc keys_push_turn)
qed

lemma roundNumbers_eq:
  assumes "distinct (map fst rs)"
  shows "roundNumbers rs = sorted_list_of_set (fst ` set rs)"
proof -
  have s: "set (roundNumbers rs) = fst ` set rs"
    by (auto simp: roundNumbers_def Object_keys_def)
  have "distinct (Object_keys rs)"
    using assms by (auto simp: Object_keys_def distinct_map_filter)
  then have "distinct (roundNumbers rs)"
    by (simp add: roundNumbers_def)
  moreover have "sorted (roundNumbers rs)"
    by (simp add: roundNumbers_def)
  ultimately show ?thesis
    using s by (metis sorted_list_of_set.idem_if_sorted_distinct)
qed

lemma roundNumbers_group:
  "roundNumbers (group_by_round h) = sorted_list_of_set (round ` set h)"
  using keys_group_by_round[of h] roundNumbers_eq[of "group_by_round h"] by simp

lemma currentRoundTurns_group:
  "currentRoundTurns (group_by_round h) a = filter (\<lambda>t. round t = a) h"
proof (cases "a \<in> round ` set h")
  case True
  then show ?thesis by (simp add: currentRoundTurns_def map_of_group_by_round)
next
  case False
  then have "filter (\<lambda>t. round t = a) h = []"
    by (auto simp: filter_empty_conv)
  with False show ?thesis
    by (simp add: currentRoundTurns_def map_of_group_by_round)
qed

lemma concat_map_empty: "(\<And>x. f x = []) \<Longrightarrow> concat (map f xs) = []"
  by (induction xs) simp_all

lemma concat_map_single: "(\<And>x. f x = [g x]) \<Longrightarrow> concat (map f xs) = map g xs"
  by (induction xs) simp_all

lemma by_class_round_tab:
  "by_class ''debate-turn'' (round_tab a r) = []"
  "by_class ''round-tabs'' (round_tab a r) = []"
  by (simp_all add: round_tab_def)

lemma by_class_debate_turn:
  "by_class ''debate-turn'' (debate_turn t) = [debate_turn t]"
  "by_class ''round-tabs'' (debate_turn t) = []"
  by (simp_all add: debate_turn_def)

lemma by_class_tabs_and_turns:
  "concat (map (by_class ''debate-turn'') (map (round_tab a) rs)) = []"
  "concat (map (by_class ''round-tabs'') (map (round_tab a) rs)) = []"
  "concat (map (by_class ''debate-turn'') (map debate_turn ts)) = map debate_turn ts"
  "concat (map (by_class ''round-tabs'') (map debate_turn ts)) = []"
  unfolding map_map comp_def
  by (rule concat_map_empty concat_map_single, rule by_class_round_tab by_class_debate_turn)+

text \<open>
  Claim C5: for a non-empty history, complete or partial, DebateRounds renders. With a
  round selected it shows, in the order of the history, exactly the turns whose \<open>round\<close>
  is the selected one, each with its role name, its model and its message as markdown.
  There is one tab for each round number that occurs in the history, labelled with the
  number, and a click on it selects that round; so every turn of the history is shown
  under the tab of its round. The component renders nothing exactly when the history is
  absent, \<open>null\<close> or empty.
\<close>

theorem DebateRounds_shows_every_turn:
  "(history \<noteq> [] \<longrightarrow>
      (\<exists>view. DebateRounds (Ref history) activeRound = Some view
         \<and> by_class ''debate-turn'' view =
             map (\<lambda>t. Element ''div'' ''debate-turn'' []
                        [Element ''div'' ''turn-header'' []
                           [Element ''span'' ''role-name'' [] [Expr (JStr (role_name t))],
                            Element ''span'' ''model-name'' []
                              [Text (js ''(''), Expr (JStr (model t)), Text (js '')'')]],
                         Element ''div'' ''turn-message markdown-content'' []
                           [ReactMarkdown (JStr (message t))]])
               (filter (\<lambda>t. round t = activeRound) history)
         \<and> by_class ''round-tabs'' view =
             [Element ''div'' ''round-tabs'' []
                (map (\<lambda>r. Element ''button''
                             (if activeRound = r then ''round-tab active'' else ''round-tab '')
                             [(''onClick.setActiveRound'', JNum r)]
                             [Text (js ''Tour ''), Expr (JNum r)])
                   (sorted_list_of_set (round ` set history)))])
      \<and> (\<forall>t \<in> set history.
            \<exists>view. DebateRounds (Ref history)
                     (click (Element ''button''
                               (if activeRound = round t then ''round-tab active'' else ''round-tab '')
                               [(''onClick.setActiveRound'', JNum (round t))]
                               [Text (js ''Tour ''), Expr (JNum (round t))])
                        activeRound) = Some view
              \<and> Element ''div'' ''debate-turn'' []
                   [Element ''div'' ''turn-header'' []
                      [Element ''span'' ''role-name'' [] [Expr (JStr (role_name t))],
                       Element ''span'' ''model-name'' []
                         [Text (js ''(''), Expr (JStr (model t)), Text (js '')'')]],
                    Element ''div'' ''turn-message markdown-content'' []
                      [ReactMarkdown (JStr (message t))]]
                  \<in> set (by_class ''debate-turn'' view)))
   \<and> (DebateRounds debateHistory activeRound = None \<longleftrightarrow>
        debateHistory = RefUndefined \<or> debateHistory = RefNull \<or> debateHistory = Ref [])"
proof (intro conjI impI)
  assume ne: "history \<noteq> []"
  have v: "\<exists>view. DebateRounds (Ref history) a = Some view
         \<and> by_class ''debate-turn'' view = map debate_turn (filter (\<lambda>t. round t = a) history)
         \<and> by_class ''round-tabs'' view =
             [Element ''div'' ''round-tabs'' []
                (map (round_tab a) (sorted_list_of_set (round ` set history)))]" for a
    using ne
    by (simp add: DebateRounds_def Let_def roundNumbers_group currentRoundTurns_group
        by_class_tabs_and_turns del: map_map)
  show "\<exists>view. DebateRounds (Ref history) activeRound = Some view
         \<and> by_class ''debate-turn'' view =
             map (\<lambda>t. Element ''div'' ''debate-turn'' []
                        [Element ''div'' ''turn-header'' []
                           [Element ''span'' ''role-name'' [] [Expr (JStr (role_name t))],
                            Element ''span'' ''model-name'' []
                              [Text (js ''(''), Expr (JStr (model t)), Text (js '')'')]],
                         Element ''div'' ''turn-message markdown-content'' []
                           [ReactMarkdown (JStr (message t))]])
               (filter (\<lambda>t. round t = activeRound) history)
         \<and> by_class ''round-tabs'' view =
             [Element ''div'' ''round-tabs'' []
                (map (\<lambda>r. Element ''button''
                             (if activeRound = r then ''round-tab active'' else ''round-tab '')
                             [(''onClick.setActiveRound'', JNum r)]
                             [Text (js ''Tour ''), Expr (JNum r)])
                   (sorted_list_of_set (round ` set history)))]"
    using v[of activeRound] unfolding debate_turn_def[abs_def] round_tab_def[abs_def] .
  show "\<forall>t \<in> set history.
            \<exists>view. DebateRounds (Ref history)
                     (click (Element ''button''
                               (if activeRound = round t then ''round-tab active'' else ''round-tab '')
                               [(''onClick.setActiveRound'', JNum (round t))]
                               [Text (js ''Tour ''), Expr (JNum (round t))])
                        activeRound) = Some view
              \<and> Element ''div'' ''debate-turn'' []
                   [Element ''div'' ''turn-header'' []
                      [Element ''span'' ''role-name'' [] [Expr (JStr (role_name t))],
                       Element ''span'' ''model-name'' []
                         [Text (js ''(''), Expr (JStr (model t)), Text (js '')'')]],
                    Element ''div'' ''turn-message markdown-content'' []
                      [ReactMarkdown (JStr (message t))]]
                  \<in> set (by_class ''debate-turn'' view)"
  proof
    fix t assume t: "t \<in> set history"
    have c: "click (Element ''button''
                (if activeRound = round t then ''round-tab active'' else ''round-tab '')
                [(''onClick.setActiveRound'', JNum (round t))]
                [Text (js ''Tour ''), Expr (JNum (round t))]) activeRound = round t"
      by simp
    obtain view where w: "DebateRounds (Ref history) (round t) = Some view"
      and b: "by_class ''debate-turn'' view =
             map debate_turn (filter (\<lambda>u. round u = round t) history)"
      using v[of "round t"] by blast
    have "debate_turn t \<in> set (by_class ''debate-turn'' view)"
      using t b by simp
    then show "\<exists>view. DebateRounds (Ref history)
                     (click (Element ''button''
                               (if activeRound = round t then ''round-tab active'' else ''round-tab '')
                               [(''onClick.setActiveRound'', JNum (round t))]
                               [Text (js ''Tour ''), Expr (JNum (round t))])
                        activeRound) = Some view
              \<and> Element ''div'' ''debate-turn'' []
                   [Element ''div'' ''turn-header'' []
                      [Element ''span'' ''role-name'' [] [Expr (JStr (role_name t))],
                       Element ''span'' ''model-name'' []
                         [Text (js ''(''), Expr (JStr (model t)), Text (js '')'')]],
                    Element ''div'' ''turn-message markdown-content'' []
                      [ReactMarkdown (JStr (message t))]]
                  \<in> set (by_class ''debate-turn'' view)"
      using w unfolding c debate_turn_def by blast
  qed
next
  show "DebateRounds debateHistory activeRound = None \<longleftrightarrow>
        debateHistory = RefUndefined \<or> debateHistory = RefNull \<or> debateHistory = Ref []"
    by (cases debateHistory) (simp_all add: DebateRounds_def Let_def)
qed

text \<open>
  A partial history: round 1 complete for two roles, round 2 cut short after the first.
  With round 2 selected the one turn of round 2 is shown, with its role name, model and
  message, and there are the tabs of rounds 1 and 2.
\<close>

theorem DebateRounds_shows_every_turn_witness:
  "[\<lparr>round = 1, role_id = js ''a'', role_name = js ''A'', model = js ''m'', message = js ''x''\<rparr>,
    \<lparr>round = 1, role_id = js ''b'', role_name = js ''B'', model = js ''m'', message = js ''y''\<rparr>,
    \<lparr>round = 2, role_id = js ''a'', role_name = js ''A'', model = js ''m'', message = js ''z''\<rparr>]
     \<noteq> []
   \<and> (\<exists>view. DebateRounds (Ref
        [\<lparr>round = 1, role_id = js ''a'', role_name = js ''A'', model = js ''m'', message = js ''x''\<rparr>,
         \<lparr>round = 1, role_id = js ''b'', role_name = js ''B'', model = js ''m'', message = js ''y''\<rparr>,
         \<lparr>round = 2, role_id = js ''a'', role_name = js ''A'', model = js ''m'', message = js ''z''\<rparr>])
        2 = Some view
      \<and> by_class ''debate-turn'' view =
          [Element ''div'' ''debate-turn'' []
             [Element ''div'' ''turn-header'' []
                [Element ''span'' ''role-name'' [] [Expr (JStr (js ''A''))],
                 Element ''span'' ''model-name'' []
                   [Text (js ''(''), Expr (JStr (js ''m'')), Text (js '')'')]],
              Element ''div'' ''turn-message markdown-content'' []
                [ReactMarkdown (JStr (js ''z''))]]]
      \<and> by_class ''round-tabs'' view =
          [Element ''div'' ''round-tabs'' []
             [Element ''button'' ''round-tab '' [(''onClick.setActiveRound'', JNum 1)]
                [Text (js ''Tour ''), Expr (JNum 1)],
              Element ''button'' ''round-tab active'' [(''onClick.setActiveRound'', JNum 2)]
                [Text (js ''Tour ''), Expr (JNum 2)]]])"
proof -
  have ne: "[\<lparr>round = 1, role_id = js ''a'', role_name = js ''A'', model = js ''m'', message = js ''x''\<rparr>,
         \<lparr>round = 1, role_id = js ''b'', role_name = js ''B'', model = js ''m'', message = js ''y''\<rparr>,
         \<lparr>round = 2, role_id = js ''a'', role_name = js ''A'', model = js ''m'', message = js ''z''\<rparr>]
        \<noteq> []"
    by simp
  have s: "sorted_list_of_set {1, 2 :: int} = [1, 2]"
    by (rule sorted_distinct_set_unique) simp_all
  from DebateRounds_shows_every_turn
    [of "[\<lparr>round = 1, role_id = js ''a'', role_name = js ''A'', model = js ''m'', message = js ''x''\<rparr>,
          \<lparr>round = 1, role_id = js ''b'', role_name = js ''B'', model = js ''m'', message = js ''y''\<rparr>,
          \<lparr>round = 2, role_id = js ''a'', role_name = js ''A'', model = js ''m'', message = js ''z''\<rparr>]"
        2 RefNull] ne
  obtain view where "DebateRounds (Ref
        [\<lparr>round = 1, role_id = js ''a'', role_name = js ''A'', model = js ''m'', message = js ''x''\<rparr>,
         \<lparr>round = 1, role_id = js ''b'', role_name = js ''B'', model = js ''m'', message = js ''y''\<rparr>,
         \<lparr>round = 2, role_id = js ''a'', role_name = js ''A'', model = js ''m'', message = js ''z''\<rparr>])
        2 = Some view"
    and "by_class ''debate-turn'' view =
             map (\<lambda>t. Element ''div'' ''debate-turn'' []
                        [Element ''div'' ''turn-header'' []
                           [Element ''span'' ''role-name'' [] [Expr (JStr (role_name t))],
                            Element ''span'' ''model-name'' []
                              [Text (js ''(''), Expr (JStr (model t)), Text (js '')'')]],
                         Element ''div'' ''turn-message markdown-content'' []
                           [ReactMarkdown (JStr (message t))]])
               (filter (\<lambda>t. round t = 2)
        [\<lparr>round = 1, role_id = js ''a'', role_name = js ''A'', model = js ''m'', message = js ''x''\<rparr>,
         \<lparr>round = 1, role_id = js ''b'', role_name = js ''B'', model = js ''m'', message = js ''y''\<rparr>,
         \<lparr>round = 2, role_id = js ''a'', role_name = js ''A'', model = js ''m'', message = js ''z''\<rparr>])"
    and "by_class ''round-tabs'' view =
             [Element ''div'' ''round-tabs'' []
                (map (\<lambda>r. Element ''button''
                             (if (2::int) = r then ''round-tab active'' else ''round-tab '')
                             [(''onClick.setActiveRound'', JNum r)]
                             [Text (js ''Tour ''), Expr (JNum r)])
                   (sorted_list_of_set (round ` set
        [\<lparr>round = 1, role_id = js ''a'', role_name = js ''A'', model = js ''m'', message = js ''x''\<rparr>,
         \<lparr>round = 1, role_id = js ''b'', role_name = js ''B'', model = js ''m'', message = js ''y''\<rparr>,
         \<lparr>round = 2, role_id = js ''a'', role_name = js ''A'', model = js ''m'', message = js ''z''\<rparr>])))]"
    by blast
  then show ?thesis
    using ne by (simp add: s)
qed

lemma concat_groups:
  "sorted (map round h) \<Longrightarrow> sorted ks \<Longrightarrow> distinct ks \<Longrightarrow> round ` set h \<subseteq> set ks \<Longrightarrow>
   concat (map (\<lambda>r. filter (\<lambda>t. round t = r) h) ks) = h"
proof (induction ks arbitrary: h)
  case Nil
  then show ?case by simp
next
  case (Cons k ks)
  let ?h' = "filter (\<lambda>t. round t \<noteq> k) h"
  have le: "\<forall>t \<in> set h. k \<le> round t"
    using Cons.prems by auto
  have split: "h = filter (\<lambda>t. round t = k) h @ ?h'"
    using Cons.prems(1) le
  proof (induction h)
    case Nil
    then show ?case by simp
  next
    case (Cons a h)
    show ?case
    proof (cases "round a = k")
      case True
      then show ?thesis using Cons by auto
    next
      case False
      then have "\<forall>t \<in> set h. round t \<noteq> k"
        using Cons.prems by fastforce
      then have "filter (\<lambda>t. round t = k) h = []" "filter (\<lambda>t. round t \<noteq> k) h = h"
        by (auto simp: filter_empty_conv filter_id_conv)
      then show ?thesis using False by simp
    qed
  qed
  have a: "sorted (map round ?h')"
    using Cons.prems(1) by (simp add: sorted_filter)
  have b: "round ` set ?h' \<subseteq> set ks"
    using Cons.prems(4) by auto
  have c: "sorted ks" and d: "distinct ks"
    using Cons.prems by simp_all
  have ih: "concat (map (\<lambda>r. filter (\<lambda>t. round t = r) ?h') ks) = ?h'"
    by (rule Cons.IH [OF a c d b])
  have "\<And>r. r \<in> set ks \<Longrightarrow> filter (\<lambda>t. round t = r) ?h' = filter (\<lambda>t. round t = r) h"
    using Cons.prems(3) by (auto intro: filter_cong)
  then have "map (\<lambda>r. filter (\<lambda>t. round t = r) h) ks
             = map (\<lambda>r. filter (\<lambda>t. round t = r) ?h') ks"
    by (intro map_cong) simp_all
  then have rest: "concat (map (\<lambda>r. filter (\<lambda>t. round t = r) h) ks) = ?h'"
    using ih by (simp only:)
  have "concat (map (\<lambda>r. filter (\<lambda>t. round t = r) h) (k # ks))
        = filter (\<lambda>t. round t = k) h @ concat (map (\<lambda>r. filter (\<lambda>t. round t = r) h) ks)"
    by simp
  also have "\<dots> = filter (\<lambda>t. round t = k) h @ ?h'"
    by (simp only: rest)
  also have "\<dots> = h"
    using split by simp
  finally show ?case .
qed

text \<open>
  Claim C6: for a history ordered by round, the per-round groups of DebateRounds, taken
  in the ascending order of \<open>roundNumbers\<close> and concatenated, give back the history.
\<close>

theorem group_by_round_concat:
  "sorted (map round history) \<Longrightarrow>
   concat (map (currentRoundTurns (group_by_round history))
             (roundNumbers (group_by_round history))) = history"
  using concat_groups[of history "sorted_list_of_set (round ` set history)"]
  by (simp add: roundNumbers_group currentRoundTurns_group[abs_def])

theorem group_by_round_concat_witness:
  "sorted (map round
     [\<lparr>round = 1, role_id = js ''a'', role_name = js ''A'', model = js ''m'', message = js ''x''\<rparr>,
      \<lparr>round = 1, role_id = js ''b'', role_name = js ''B'', model = js ''m'', message = js ''y''\<rparr>,
      \<lparr>round = 2, role_id = js ''a'', role_name = js ''A'', model = js ''m'', message = js ''z''\<rparr>])
   \<and> concat (map (currentRoundTurns (group_by_round
     [\<lparr>round = 1, role_id = js ''a'', role_name = js ''A'', model = js ''m'', message = js ''x''\<rparr>,
      \<lparr>round = 1, role_id = js ''b'', role_name = js ''B'', model = js ''m'', message = js ''y''\<rparr>,
      \<lparr>round = 2, role_id = js ''a'', role_name = js ''A'', model = js ''m'', message = js ''z''\<rparr>]))
       (roundNumbers (group_by_round
     [\<lparr>round = 1, role_id = js ''a'', role_name = js ''A'', model = js ''m'', message = js ''x''\<rparr>,
      \<lparr>round = 1, role_id = js ''b'', role_name = js ''B'', model = js ''m'', message = js ''y''\<rparr>,
      \<lparr>round = 2, role_id = js ''a'', role_name = js ''A'', model = js ''m'', message = js ''z''\<rparr>])))
     = [\<lparr>round = 1, role_id = js ''a'', role_name = js ''A'', model = js ''m'', message = js ''x''\<rparr>,
      \<lparr>round = 1, role_id = js ''b'', role_name = js ''B'', model = js ''m'', message = js ''y''\<rparr>,
      \<lparr>round = 2, role_id = js ''a'', role_name = js ''A'', model = js ''m'', message = js ''z''\<rparr>]"
proof -
  have s: "sorted (map round
     [\<lparr>round = 1, role_id = js ''a'', role_name = js ''A'', model = js ''m'', message = js ''x''\<rparr>,
      \<lparr>round = 1, role_id = js ''b'', role_name = js ''B'', model = js ''m'', message = js ''y''\<rparr>,
      \<lparr>round = 2, role_id = js ''a'', role_name = js ''A'', model = js ''m'', message = js ''z''\<rparr>])"
    by simp
  show ?thesis using s group_by_round_concat [OF s] by simp
qed

section \<open>Properties of SynthesisDashboard\<close>

lemma by_class_map_none:
  "(\<And>x. by_class c (f x) = []) \<Longrightarrow> concat (map (by_class c) (map f xs)) = []"
  unfolding map_map comp_def by (rule concat_map_empty)

lemma by_class_map_each:
  "(\<And>x. by_class c (f x) = [f x]) \<Longrightarrow> concat (map (by_class c) (map f xs)) = map f xs"
  unfolding map_map comp_def by (rule concat_map_single)

lemma by_tag_map_each:
  "(\<And>x. by_tag c (f x) = [f x]) \<Longrightarrow> concat (map (by_tag c) (map f xs)) = map f xs"
  unfolding map_map comp_def by (rule concat_map_single)

lemma by_class_score_bar [simp]:
  "by_class ''consensus-box'' (score_bar item) = []"
  "by_class ''divergence-box'' (score_bar item) = []"
  "by_class ''risk-item'' (score_bar item) = []"
  "by_class ''scenario-card'' (score_bar item) = []"
  by (simp_all add: score_bar_def)

text \<open>What the dashboard shows of each list of points.\<close>

lemma dashboard_consensus:
  "concat (map (by_tag ''li'') (by_class ''consensus-box'' (dashboard cp dp rp sp sc)))
     = map (\<lambda>point. Element ''li'' '''' [] [Expr (JStr point)]) (take 3 cp)"
  by (cases sc)
     (simp_all add: dashboard_def by_class_map_none by_class_map_each by_tag_map_each
        split_beta del: map_map)

lemma dashboard_divergence:
  "concat (map (by_tag ''li'') (by_class ''divergence-box'' (dashboard cp dp rp sp sc)))
     = map (\<lambda>point. Element ''li'' '''' [] [Expr (JStr point)]) (take 3 dp)"
  by (cases sc)
     (simp_all add: dashboard_def by_class_map_none by_class_map_each by_tag_map_each
        split_beta del: map_map)

lemma dashboard_risks:
  "length (by_class ''risk-item'' (dashboard cp dp rp sp sc)) = length (take 4 rp)"
  by (cases sc)
     (simp_all add: dashboard_def by_class_map_none by_class_map_each by_tag_map_each
        split_beta indexed_def del: map_map)

lemma dashboard_scenarios:
  "length (by_class ''scenario-card'' (dashboard cp dp rp sp sc)) = length (take 3 sp)"
  by (cases sc)
     (simp_all add: dashboard_def by_class_map_none by_class_map_each by_tag_map_each
        split_beta indexed_def del: map_map)

lemma SynthesisDashboard_view:
  "SynthesisDashboard synthesis = Some (Inr (Some view)) \<Longrightarrow>
     \<exists>cp dp rp sp sc. view = dashboard cp dp rp sp sc"
  unfolding SynthesisDashboard_def Let_def
  by (simp split: jsref.splits jsval.splits if_splits option.splits) blast+

subsection \<open>A synthesis text with four points of consensus\<close>

lemmas regex_defs =
  seq_def lit_def any_unit_def colon_or_space_def Plus_def canonicalize_def
  is_white_space_def is_line_terminator_def capture_def matcher_def

lemma sample_consensus:
  "extractSection (js ''## Points of Consensus\<newline>- a\<newline>- b\<newline>- c\<newline>- d'') consensus_name
     = Some (js ''- a\<newline>- b\<newline>- c\<newline>- d'')"
  by (simp add: extractSection_def patterns_def consensus_name_def regex_defs js_def trim_def)

lemma sample_divergence:
  "extractSection (js ''## Points of Consensus\<newline>- a\<newline>- b\<newline>- c\<newline>- d'') divergence_name
     = None"
  by (simp add: extractSection_def patterns_def divergence_name_def regex_defs js_def trim_def)

lemma sample_risks:
  "extractSection (js ''## Points of Consensus\<newline>- a\<newline>- b\<newline>- c\<newline>- d'') risks_name
     = None"
  by (simp add: extractSection_def patterns_def risks_name_def regex_defs js_def trim_def)

lemma sample_scenarios:
  "extractSection (js ''## Points of Consensus\<newline>- a\<newline>- b\<newline>- c\<newline>- d'') scenarios_name
     = None"
  by (simp add: extractSection_def patterns_def scenarios_name_def regex_defs js_def trim_def)

lemma sample_scores:
  "extractScores (js ''## Points of Consensus\<newline>- a\<newline>- b\<newline>- c\<newline>- d'') = Some None"
  by (simp add: extractScores_def scorePattern_def regex_defs js_def)

lemma sample_points:
  "extractBulletPoints (Some (js ''- a\<newline>- b\<newline>- c\<newline>- d''))
     = [js ''a'', js ''b'', js ''c'', js ''d'']"
  by (simp add: extractBulletPoints_def bullet_def replace_first_def regex_defs js_def trim_def)

lemma extractBulletPoints_null: "extractBulletPoints None = []"
  by (simp add: extractBulletPoints_def)

lemma sample_renders:
  "SynthesisDashboard
     (Ref [(js ''message'', js ''## Points of Consensus\<newline>- a\<newline>- b\<newline>- c\<newline>- d'')])
     = Some (Inr (Some (dashboard [js ''a'', js ''b'', js ''c'', js ''d''] [] [] [] None)))"
proof -
  have "get_property
          [(js ''message'', js ''## Points of Consensus\<newline>- a\<newline>- b\<newline>- c\<newline>- d'')]
          (js ''message'')
        = JStr (js ''## Points of Consensus\<newline>- a\<newline>- b\<newline>- c\<newline>- d'')"
    by (simp add: get_property_def)
  moreover have "js ''## Points of Consensus\<newline>- a\<newline>- b\<newline>- c\<newline>- d'' \<noteq> []"
    by (simp add: js_def)
  ultimately show ?thesis
    by (simp add: SynthesisDashboard_def Let_def sample_consensus sample_divergence
        sample_risks sample_scenarios sample_scores sample_points extractBulletPoints_null)
qed

text \<open>
  The heading \<open>## Consensus\<close> is matched by the first alternative of the first
  pattern, \<^verbatim>\<open>##\s*Consensus\<close>, which has no group; the second pattern finds nothing;
  so no section is extracted under this heading.
\<close>

lemma heading_without_group:
  "extractSection (js ''## Consensus\<newline>- a'') consensus_name = None"
  by (simp add: extractSection_def patterns_def consensus_name_def regex_defs js_def trim_def)

text \<open>
  Claim C3: for a synthesis record of the payload shape, with its text under \<open>response\<close>,
  the dashboard shows the indicators found in the text. The component reads the text
  from \<open>message\<close>: for a record of the payload shape whose \<open>response\<close> has a section of
  four points of consensus it returns \<open>null\<close>, although the points are found in that text
  and the same text under \<open>message\<close> is rendered.
\<close>

theorem SynthesisDashboard_reads_message:
  "SynthesisDashboard
     (Ref [(js ''role_id'', js ''juge''), (js ''role_name'', js ''Juge''),
           (js ''model'', js ''llama3.1:8b''),
           (js ''response'', js ''## Points of Consensus\<newline>- a\<newline>- b\<newline>- c\<newline>- d'')])
     = Some (Inr None)
   \<and> extractBulletPoints
         (extractSection (js ''## Points of Consensus\<newline>- a\<newline>- b\<newline>- c\<newline>- d'')
            consensus_name)
        = [js ''a'', js ''b'', js ''c'', js ''d'']
   \<and> SynthesisDashboard
         (Ref [(js ''message'', js ''## Points of Consensus\<newline>- a\<newline>- b\<newline>- c\<newline>- d'')])
        = Some (Inr (Some (dashboard [js ''a'', js ''b'', js ''c'', js ''d''] [] [] [] None)))"
proof -
  have "get_property
          [(js ''role_id'', js ''juge''), (js ''role_name'', js ''Juge''),
           (js ''model'', js ''llama3.1:8b''),
           (js ''response'', js ''## Points of Consensus\<newline>- a\<newline>- b\<newline>- c\<newline>- d'')]
          (js ''message'') = JUndefined"
    by (simp add: get_property_def Object_prototype_def js_def)
  then have "SynthesisDashboard
     (Ref [(js ''role_id'', js ''juge''), (js ''role_name'', js ''Juge''),
           (js ''model'', js ''llama3.1:8b''),
           (js ''response'', js ''## Points of Consensus\<newline>- a\<newline>- b\<newline>- c\<newline>- d'')])
     = Some (Inr None)"
    by (simp add: SynthesisDashboard_def)
  then show ?thesis
    using sample_renders by (simp add: sample_consensus sample_points)
qed

text \<open>
  Claim C10: whenever SynthesisDashboard renders, it shows at most 3 points of
  consensus, at most 3 points of divergence, at most 4 critical risks and at most 3
  alternative scenarios, however many were extracted.
\<close>

theorem SynthesisDashboard_caps:
  "SynthesisDashboard synthesis = Some (Inr (Some view)) \<Longrightarrow>
     length (concat (map (by_tag ''li'') (by_class ''consensus-box'' view))) \<le> 3
     \<and> length (concat (map (by_tag ''li'') (by_class ''divergence-box'' view))) \<le> 3
     \<and> length (by_class ''risk-item'' view) \<le> 4
     \<and> length (by_class ''scenario-card'' view) \<le> 3"
proof -
  assume "SynthesisDashboard synthesis = Some (Inr (Some view))"
  then obtain cp dp rp sp sc where "view = dashboard cp dp rp sp sc"
    using SynthesisDashboard_view by blast
  then show ?thesis
    by (simp add: dashboard_consensus dashboard_divergence dashboard_risks dashboard_scenarios)
qed

text \<open>Four points of consensus are extracted, three are shown.\<close>

theorem SynthesisDashboard_caps_witness:
  "SynthesisDashboard
     (Ref [(js ''message'', js ''## Points of Consensus\<newline>- a\<newline>- b\<newline>- c\<newline>- d'')])
     = Some (Inr (Some (dashboard [js ''a'', js ''b'', js ''c'', js ''d''] [] [] [] None)))
   \<and> length (concat (map (by_tag ''li'') (by_class ''consensus-box''
         (dashboard [js ''a'', js ''b'', js ''c'', js ''d''] [] [] [] None)))) \<le> 3
   \<and> length (by_class ''risk-item''
         (dashboard [js ''a'', js ''b'', js ''c'', js ''d''] [] [] [] None)) \<le> 4"
  using sample_renders SynthesisDashboard_caps [OF sample_renders] by simp

section \<open>Properties of the debate orchestration\<close>









lemma run_round_invariant:
  "run_round invoke q R r roles st = Inr st' \<Longrightarrow>
   map sequence_index (transcript_so_far st) = [0..<length (transcript_so_far st)] \<Longrightarrow>
   next_sequence_index st = length (transcript_so_far st) \<Longrightarrow>
     map sequence_index (transcript_so_far st') = [0..<length (transcript_so_far st')]
     \<and> next_sequence_index st' = length (transcript_so_far st')
     \<and> length (transcript_so_far st') = length (transcript_so_far st) + length roles"
proof (induction roles arbitrary: st)
  case Nil
  then show ?case by simp
next
  case (Cons role roles)
  from Cons.prems(1) obtain t where
    t: "executeTurn invoke role (buildContext q role (transcript_so_far st) r R) r
          (next_sequence_index st) = Inr t"
    and rest: "run_round invoke q R r roles
          \<lparr>transcript_so_far = transcript_so_far st @ [t],
           next_sequence_index = next_sequence_index st + 1\<rparr> = Inr st'"
    by (auto split: sum.splits)
  have s: "sequence_index t = next_sequence_index st"
    using t by (auto simp: executeTurn_def split: option.splits)
  let ?st1 = "\<lparr>transcript_so_far = transcript_so_far st @ [t],
           next_sequence_index = next_sequence_index st + 1\<rparr>"
  have a: "map sequence_index (transcript_so_far ?st1) = [0..<length (transcript_so_far ?st1)]"
    using Cons.prems(2,3) s by simp
  have b: "next_sequence_index ?st1 = length (transcript_so_far ?st1)"
    using Cons.prems(3) by simp
  from Cons.IH [OF rest a b] show ?case by simp
qed

lemma run_rounds_invariant:
  "run_rounds invoke q R roles r n st = Inr st' \<Longrightarrow>
   map sequence_index (transcript_so_far st) = [0..<length (transcript_so_far st)] \<Longrightarrow>
   next_sequence_index st = length (transcript_so_far st) \<Longrightarrow>
     map sequence_index (transcript_so_far st') = [0..<length (transcript_so_far st')]
     \<and> next_sequence_index st' = length (transcript_so_far st')
     \<and> length (transcript_so_far st') = length (transcript_so_far st) + n * length roles"
proof (induction n arbitrary: r st)
  case 0
  then show ?case by simp
next
  case (Suc n)
  from Suc.prems(1) obtain st1 where
    one: "run_round invoke q R r roles st = Inr st1"
    and rest: "run_rounds invoke q R roles (r + 1) n st1 = Inr st'"
    by (auto split: sum.splits)
  note i = run_round_invariant [OF one Suc.prems(2) Suc.prems(3)]
  from Suc.IH [OF rest] i show ?case by simp
qed

text \<open>
  Claim C1: the transcript of a completed session with \<open>R\<close> rounds and \<open>K\<close> debate
  roles has exactly \<open>R \<times> K\<close> turns, and the sequence index increases strictly with the
  position in the transcript; the turn at position \<open>i\<close> has sequence index \<open>i\<close>.
\<close>

theorem run_multi_round_debate_transcript:
  assumes "status (run_multi_round_debate invoke debateRoles synthesizerRole userQuery totalRounds)
             = Completed"
  shows "length (transcript (run_multi_round_debate invoke debateRoles synthesizerRole
                    userQuery totalRounds)) = totalRounds * length debateRoles
     \<and> (\<forall>i j. i < j \<and> j < totalRounds * length debateRoles \<longrightarrow>
           sequence_index (transcript (run_multi_round_debate invoke debateRoles
               synthesizerRole userQuery totalRounds) ! i)
           < sequence_index (transcript (run_multi_round_debate invoke debateRoles
               synthesizerRole userQuery totalRounds) ! j))
     \<and> map sequence_index (transcript (run_multi_round_debate invoke debateRoles
               synthesizerRole userQuery totalRounds)) = [0..<totalRounds * length debateRoles]"
proof -
  let ?s = "run_multi_round_debate invoke debateRoles synthesizerRole userQuery totalRounds"
  from assms obtain st where
    run: "run_rounds invoke userQuery totalRounds debateRoles 1 totalRounds
            \<lparr>transcript_so_far = [], next_sequence_index = 0\<rparr> = Inr st"
    and tr: "transcript ?s = transcript_so_far st"
    by (auto simp: run_multi_round_debate_def split: sum.splits prod.splits)
  from run_rounds_invariant [OF run]
  have len: "length (transcript_so_far st) = totalRounds * length debateRoles"
    and idx: "map sequence_index (transcript_so_far st) = [0..<length (transcript_so_far st)]"
    by simp_all
  have nth: "sequence_index (transcript_so_far st ! i) = i"
    if "i < totalRounds * length debateRoles" for i
  proof -
    have "map sequence_index (transcript_so_far st) ! i = [0..<length (transcript_so_far st)] ! i"
      by (simp only: idx)
    then show ?thesis using that len by simp
  qed
  show ?thesis
    using len idx nth by (simp add: tr)
qed

text \<open>
  Two roles, two rounds, a service that always answers: the session completes, with four
  turns.
\<close>

theorem run_multi_round_debate_transcript_witness:
  "status (run_multi_round_debate (\<lambda>m c. Some (js ''ok''))
      [\<lparr>role_id' = js ''a'', role_name' = js ''A'', model_id = js ''m'',
        debate_instructions = js ''Argue.'', synthesis_instructions = [],
        participates_in_debate = True, is_synthesizer = False\<rparr>,
       \<lparr>role_id' = js ''b'', role_name' = js ''B'', model_id = js ''m'',
        debate_instructions = js ''Argue.'', synthesis_instructions = [],
        participates_in_debate = True, is_synthesizer = False\<rparr>]
      \<lparr>role_id' = js ''juge'', role_name' = js ''Juge'', model_id = js ''m'',
       debate_instructions = [], synthesis_instructions = js ''Judge.'',
       participates_in_debate = False, is_synthesizer = True\<rparr>
      (js ''q'') 2) = Completed
   \<and> length (transcript (run_multi_round_debate (\<lambda>m c. Some (js ''ok''))
      [\<lparr>role_id' = js ''a'', role_name' = js ''A'', model_id = js ''m'',
        debate_instructions = js ''Argue.'', synthesis_instructions = [],
        participates_in_debate = True, is_synthesizer = False\<rparr>,
       \<lparr>role_id' = js ''b'', role_name' = js ''B'', model_id = js ''m'',
        debate_instructions = js ''Argue.'', synthesis_instructions = [],
        participates_in_debate = True, is_synthesizer = False\<rparr>]
      \<lparr>role_id' = js ''juge'', role_name' = js ''Juge'', model_id = js ''m'',
       debate_instructions = [], synthesis_instructions = js ''Judge.'',
       participates_in_debate = False, is_synthesizer = True\<rparr>
      (js ''q'') 2)) = 4"
proof -
  have c: "status (run_multi_round_debate (\<lambda>m c. Some (js ''ok''))
      [\<lparr>role_id' = js ''a'', role_name' = js ''A'', model_id = js ''m'',
        debate_instructions = js ''Argue.'', synthesis_instructions = [],
        participates_in_debate = True, is_synthesizer = False\<rparr>,
       \<lparr>role_id' = js ''b'', role_name' = js ''B'', model_id = js ''m'',
        debate_instructions = js ''Argue.'', synthesis_instructions = [],
        participates_in_debate = True, is_synthesizer = False\<rparr>]
      \<lparr>role_id' = js ''juge'', role_name' = js ''Juge'', model_id = js ''m'',
       debate_instructions = [], synthesis_instructions = js ''Judge.'',
       participates_in_debate = False, is_synthesizer = True\<rparr>
      (js ''q'') 2) = Completed"
    by (simp add: run_multi_round_debate_def numeral_2_eq_2 executeTurn_def synthesize_def)
  show ?thesis
    using c run_multi_round_debate_transcript [OF c] by simp
qed

end
